theory Spec2Isabelle
  imports Main
begin

section \<open>JavaScript primitives used by the server and the upload client\<close>

text \<open>
  The handlers of \<^verbatim>\<open>server/routes.ts\<close> work on strings and on JavaScript numbers.
  A number that comes out of \<^verbatim>\<open>parseInt\<close> is either \<^verbatim>\<open>NaN\<close> or an integer, so it is
  modelled as \<open>int option\<close> with \<open>None\<close> for \<^verbatim>\<open>NaN\<close>.  (A digit string above
  \<open>2^53\<close> is rounded by the JavaScript number type; the model keeps the exact integer.
  Every use below passes the number to the stream constructor, which refuses everything
  above \<open>2^53 - 1\<close>, so the two agree on all responses.)
\<close>

type_synonym jsnum = "int option"

definition isStrWhiteSpaceChar :: "char \<Rightarrow> bool" where
  "isStrWhiteSpaceChar c \<longleftrightarrow>
     (of_char c :: nat) \<in> {9, 10, 11, 12, 13, 32, 160}"

definition isDigit :: "char \<Rightarrow> bool" where
  "isDigit c \<longleftrightarrow> 48 \<le> (of_char c :: nat) \<and> (of_char c :: nat) \<le> 57"

definition digitVal :: "char \<Rightarrow> int" where
  "digitVal c = int (of_char c) - 48"

fun digitsValue :: "int \<Rightarrow> string \<Rightarrow> int" where
  "digitsValue acc [] = acc"
| "digitsValue acc (c # cs) = digitsValue (acc * 10 + digitVal c) cs"

text \<open>
  \<^verbatim>\<open>parseInt(s, 10)\<close>: leading white space is skipped, one sign is accepted, then the
  longest run of decimal digits is read; with no digit the result is \<^verbatim>\<open>NaN\<close>.
\<close>

definition parseInt :: "string \<Rightarrow> jsnum" where
  "parseInt s =
     (let t = dropWhile isStrWhiteSpaceChar s;
          neg = (case t of [] \<Rightarrow> False | c # r \<Rightarrow> c = CHR ''-'');
          u = (case t of [] \<Rightarrow> []
               | c # r \<Rightarrow> if c = CHR ''-'' \<or> c = CHR ''+'' then r else t);
          ds = takeWhile isDigit u
      in if ds = [] then None
         else Some (if neg then - digitsValue 0 ds else digitsValue 0 ds))"

fun startsWith :: "string \<Rightarrow> string \<Rightarrow> bool" where
  "startsWith s [] = True"
| "startsWith [] (p # ps) = False"
| "startsWith (c # cs) (p # ps) = (c = p \<and> startsWith cs ps)"

text \<open>\<^verbatim>\<open>s.replace(/pat/, rep)\<close> for a literal pattern: the first occurrence only.\<close>

fun replaceFirst :: "string \<Rightarrow> string \<Rightarrow> string \<Rightarrow> string" where
  "replaceFirst pat rep [] = (if pat = [] then rep else [])"
| "replaceFirst pat rep (c # cs) =
     (if startsWith (c # cs) pat then rep @ drop (length pat) (c # cs)
      else c # replaceFirst pat rep cs)"

text \<open>\<^verbatim>\<open>s.split(d)\<close> for a one-character separator; the empty string gives one empty field.\<close>

fun splitOn :: "char \<Rightarrow> string \<Rightarrow> string list" where
  "splitOn d [] = [[]]"
| "splitOn d (c # cs) =
     (if c = d then [] # splitOn d cs
      else (case splitOn d cs of [] \<Rightarrow> [[c]] | w # ws \<Rightarrow> (c # w) # ws))"


text \<open>
  \<^verbatim>\<open>parseInt(s)\<close> without a radix also reads a \<^verbatim>\<open>0x\<close> prefix as hexadecimal.
\<close>

definition isHexDigit :: "char \<Rightarrow> bool" where
  "isHexDigit c \<longleftrightarrow>
     isDigit c \<or> (65 \<le> (of_char c :: nat) \<and> (of_char c :: nat) \<le> 70)
       \<or> (97 \<le> (of_char c :: nat) \<and> (of_char c :: nat) \<le> 102)"

definition hexVal :: "char \<Rightarrow> int" where
  "hexVal c =
     (if isDigit c then digitVal c
      else if (of_char c :: nat) \<le> 70 then int (of_char c) - 55
      else int (of_char c) - 87)"

fun hexValue :: "int \<Rightarrow> string \<Rightarrow> int" where
  "hexValue acc [] = acc"
| "hexValue acc (c # cs) = hexValue (acc * 16 + hexVal c) cs"

definition parseIntAuto :: "string \<Rightarrow> jsnum" where
  "parseIntAuto s =
     (let t = dropWhile isStrWhiteSpaceChar s;
          neg = (case t of [] \<Rightarrow> False | c # r \<Rightarrow> c = CHR ''-'');
          u = (case t of [] \<Rightarrow> []
               | c # r \<Rightarrow> if c = CHR ''-'' \<or> c = CHR ''+'' then r else t)
      in if startsWith u ''0x'' \<or> startsWith u ''0X'' then
           (let ds = takeWhile isHexDigit (drop 2 u)
            in if ds = [] then None
               else Some (if neg then - hexValue 0 ds else hexValue 0 ds))
         else parseInt s)"

text \<open>\<^verbatim>\<open>!x\<close> on a possibly missing string: missing and empty are both falsy.\<close>

definition truthy :: "string option \<Rightarrow> bool" where
  "truthy p = (case p of None \<Rightarrow> False | Some v \<Rightarrow> v \<noteq> [])"

definition orElse :: "string option \<Rightarrow> string \<Rightarrow> string" where
  "orElse p d = (case p of None \<Rightarrow> d | Some v \<Rightarrow> if v = [] then d else v)"

fun contains :: "string \<Rightarrow> string \<Rightarrow> bool" where
  "contains [] sub = (sub = [])"
| "contains (c # cs) sub = (startsWith (c # cs) sub \<or> contains cs sub)"

definition toLowerCase :: "string \<Rightarrow> string" where
  "toLowerCase s =
     map (\<lambda>c. if 65 \<le> (of_char c :: nat) \<and> (of_char c :: nat) \<le> 90
              then char_of ((of_char c :: nat) + 32) else c) s"

text \<open>\<^verbatim>\<open>path.basename\<close> and \<^verbatim>\<open>path.extname\<close> on names without trailing separators.\<close>

definition basename :: "string \<Rightarrow> string" where
  "basename s = rev (takeWhile (\<lambda>c. c \<noteq> CHR ''/'') (rev s))"

definition extname :: "string \<Rightarrow> string" where
  "extname s =
     (let b = basename s;
          r = rev b;
          ext = takeWhile (\<lambda>c. c \<noteq> CHR ''.'') r;
          stem = drop 1 (dropWhile (\<lambda>c. c \<noteq> CHR ''.'') r)
      in if CHR ''.'' \<notin> set b \<or> stem = [] \<or> b = ''..'' then []
         else CHR ''.'' # rev ext)"

text \<open>Numbers inside template strings and header values.\<close>

definition digitChar :: "nat \<Rightarrow> char" where
  "digitChar d = char_of (48 + d)"

fun showNat :: "nat \<Rightarrow> string" where
  "showNat n = (if n < 10 then [digitChar n] else showNat (n div 10) @ [digitChar (n mod 10)])"

declare showNat.simps [simp del]

definition showNum :: "jsnum \<Rightarrow> string" where
  "showNum x = (case x of None \<Rightarrow> ''NaN''
                | Some i \<Rightarrow> if i < 0 then CHR ''-'' # showNat (nat (- i)) else showNat (nat i))"

definition jsSub :: "jsnum \<Rightarrow> jsnum \<Rightarrow> jsnum" where
  "jsSub a b = (case (a, b) of (Some x, Some y) \<Rightarrow> Some (x - y) | _ \<Rightarrow> None)"

definition jsAdd :: "jsnum \<Rightarrow> jsnum \<Rightarrow> jsnum" where
  "jsAdd a b = (case (a, b) of (Some x, Some y) \<Rightarrow> Some (x + y) | _ \<Rightarrow> None)"


section \<open>HTTP responses\<close>

text \<open>
  A signed URL is kept structured: the S3 operation it authorises, the object key and the
  \<^verbatim>\<open>expiresIn\<close> it was signed with (seconds).
\<close>

datatype s3op = GetObject | PutObject | UploadPart string "int option" | PresignedPost

datatype url = Plain string | ObjectUrl string | Signed s3op string nat

datatype jv = S string | B bool | N int | U url | Fields "(string \<times> string) list"

text \<open>
  A thumbnail file is either some stored picture or the PNG that the thumbnail handler
  carries as a base64 constant (\<open>DefaultThumbnailPng\<close>; its bytes are not spelled out).
  The two SVG placeholders are kept by the lines of text they show.
\<close>

datatype image = Picture "nat list" | DefaultThumbnailPng

datatype body =
    NoBody
  | Text string
  | Bytes "nat list"
  | Json "(string \<times> jv) list"
  | Image image
  | SvgPlaceholder "string list"

record response =
  status :: nat
  headers :: "(string \<times> string) list"
  location :: "url option"
  body :: body

definition respond :: "nat \<Rightarrow> (string \<times> string) list \<Rightarrow> body \<Rightarrow> response" where
  "respond code hs b = \<lparr>status = code, headers = hs, location = None, body = b\<rparr>"

definition json :: "nat \<Rightarrow> (string \<times> jv) list \<Rightarrow> response" where
  "json code kvs = respond code [] (Json kvs)"

definition sendText :: "nat \<Rightarrow> string \<Rightarrow> response" where
  "sendText code msg = respond code [] (Text msg)"

definition redirect :: "url \<Rightarrow> response" where
  "redirect u = \<lparr>status = 302, headers = [], location = Some u, body = NoBody\<rparr>"


section \<open>Streaming a local file (\<^verbatim>\<open>streamLocalVideoFile\<close>)\<close>

text \<open>
  \<^verbatim>\<open>fs.createReadStream(path, {start, end})\<close> is the platform's stream constructor.
  Node.js checks both positions when the stream is constructed: each must be an integer
  between \<open>0\<close> and \<open>2^53 - 1\<close>, and \<open>start\<close> must not exceed \<open>end\<close>; otherwise the
  constructor throws \<^verbatim>\<open>ERR_OUT_OF_RANGE\<close>.  An accepted stream yields the bytes from
  \<open>start\<close> to \<open>end\<close> inclusive, cut at the end of the file.
\<close>

datatype fsError = ERR_OUT_OF_RANGE

definition checkPosition :: "jsnum \<Rightarrow> bool" where
  "checkPosition pos = (case pos of None \<Rightarrow> False | Some p \<Rightarrow> 0 \<le> p \<and> p \<le> 2 ^ 53 - 1)"

definition createReadStream :: "nat list \<Rightarrow> jsnum \<Rightarrow> jsnum \<Rightarrow> fsError + nat list" where
  "createReadStream content start end =
     (case (start, end) of
        (Some s, Some e) \<Rightarrow>
          if \<not> checkPosition start then Inl ERR_OUT_OF_RANGE
          else if \<not> checkPosition end then Inl ERR_OUT_OF_RANGE
          else if s > e then Inl ERR_OUT_OF_RANGE
          else Inr (take (nat (e - s + 1)) (drop (nat s) content))
      | _ \<Rightarrow> Inl ERR_OUT_OF_RANGE)"

text \<open>
  The request's \<^verbatim>\<open>Range\<close> header is \<open>None\<close> when absent.  \<^verbatim>\<open>if (range)\<close> is also false
  for the empty string.  \<^verbatim>\<open>parts[1] ? ... : fileSize - 1\<close> takes the default both when
  there is no second field and when it is empty.
\<close>

definition rangeParts :: "string \<Rightarrow> string list" where
  "rangeParts rangeHeader = splitOn (CHR ''-'') (replaceFirst ''bytes='' [] rangeHeader)"

definition rangeStart :: "string \<Rightarrow> jsnum" where
  "rangeStart rangeHeader =
     (case rangeParts rangeHeader of [] \<Rightarrow> None | p0 # rest \<Rightarrow> parseInt p0)"

definition rangeEnd :: "nat \<Rightarrow> string \<Rightarrow> jsnum" where
  "rangeEnd fileSize rangeHeader =
     (case rangeParts rangeHeader of
        p0 # p1 # rest \<Rightarrow> if p1 \<noteq> [] then parseInt p1 else Some (int fileSize - 1)
      | _ \<Rightarrow> Some (int fileSize - 1))"

definition streamLocalVideoFile :: "nat list \<Rightarrow> string option \<Rightarrow> fsError + response" where
  "streamLocalVideoFile content rangeHeader =
     (let fileSize = length content;
          whole = respond 200
                    [(''Content-Length'', showNat fileSize), (''Content-Type'', ''video/mp4'')]
                    (Bytes content)
      in case rangeHeader of
           None \<Rightarrow> Inr whole
         | Some r \<Rightarrow>
             if r = [] then Inr whole
             else
               (let start = rangeStart r;
                    end = rangeEnd fileSize r;
                    chunkSize = jsAdd (jsSub end start) (Some 1)
                in case createReadStream content start end of
                     Inl err \<Rightarrow> Inl err
                   | Inr file \<Rightarrow>
                       Inr (respond 206
                              [(''Content-Range'',
                                  ''bytes '' @ showNum start @ ''-'' @ showNum end @ ''/''
                                    @ showNat fileSize),
                               (''Accept-Ranges'', ''bytes''),
                               (''Content-Length'', showNum chunkSize),
                               (''Content-Type'', ''video/mp4'')]
                              (Bytes file))))"


section \<open>The storage backends as the handlers see them\<close>

text \<open>
  \<open>uploadDir\<close> and \<open>thumbnailDir\<close> are the two local directories, as maps from file
  name to content.  The remote store is seen through \<^verbatim>\<open>HeadObject\<close> (\<open>s3Has\<close>), the bytes of its objects (\<open>s3Body\<close>), the origin of its public URLs (\<open>s3Origin\<close>) and
  through the URL signer, which may throw (\<open>signerOk\<close>).  \<open>canWrite\<close> tells whether
  \<^verbatim>\<open>fs.writeFileSync\<close> into the thumbnail directory succeeds.  \<open>s3PutOk\<close> tells for
  which keys \<^verbatim>\<open>PutObject\<close> succeeds, \<open>s3ApiOk\<close> whether the other calls to the store
  succeed, \<open>ffmpegFrame\<close> what the thumbnail generator produces (\<open>None\<close> when it fails),
  \<open>dbOk\<close> whether the insert into the video table succeeds.  \<open>videos\<close> is that table,
  \<open>finalized\<close> the log of \<^verbatim>\<open>CompleteMultipartUpload\<close> calls made to the store (key, upload
  id, parts), \<open>uuid\<close> the sequence of fresh identifiers that \<^verbatim>\<open>randomUUID\<close> returns within
  one request, \<open>production\<close> the value of \<^verbatim>\<open>isProduction()\<close> and \<open>MAX_FILE_SIZE\<close> the
  configured limit.
  \<^verbatim>\<open>USE_S3\<close> is passed to every handler as \<open>use_s3\<close>; \<^verbatim>\<open>s3Client\<close> is non-null exactly
  when it is true.
\<close>

record video =
  videoTitle :: string
  videoDescription :: string
  videoDuration :: int
  filePath :: string
  thumbnailPath :: string
  videoCategory :: string
  videoTags :: "string list"
  isFeatured :: bool
  isContest :: bool
  isAI :: bool

record world =
  uploadDir :: "string \<rightharpoonup> nat list"
  thumbnailDir :: "string \<rightharpoonup> image"
  s3Has :: "string \<Rightarrow> bool"
  s3Body :: "string \<Rightarrow> nat list"
  s3Origin :: string
  signerOk :: bool
  canWrite :: bool
  s3PutOk :: "string \<Rightarrow> bool"
  s3ApiOk :: bool
  newUploadId :: string
  ffmpegFrame :: "nat list option"
  dbOk :: bool
  videos :: "video list"
  finalized :: "(string \<times> string \<times> (jsnum \<times> string) list) list"
  uuid :: "nat \<Rightarrow> string"
  production :: bool
  MAX_FILE_SIZE :: nat

definition normalizeS3Key :: "string \<Rightarrow> string" where
  "normalizeS3Key path = (if startsWith path ''/'' then drop 1 path else path)"

definition fileExistsInS3 :: "bool \<Rightarrow> world \<Rightarrow> string \<Rightarrow> bool" where
  "fileExistsInS3 use_s3 w s3Key = (if \<not> use_s3 then False else s3Has w (normalizeS3Key s3Key))"

text \<open>\<^verbatim>\<open>getPresignedUrl(key, expiresIn)\<close>; \<open>None\<close> stands for the thrown error.\<close>

definition getPresignedUrl :: "bool \<Rightarrow> world \<Rightarrow> string \<Rightarrow> nat \<Rightarrow> url option" where
  "getPresignedUrl use_s3 w key expiresIn =
     (if \<not> use_s3 then None
      else if signerOk w then Some (Signed GetObject (normalizeS3Key key) expiresIn)
      else None)"

text \<open>
  \<^verbatim>\<open>getProperAssetUrl(filePath, type)\<close>, a helper that the module exports.  A path that is
  already a URL is returned as it is; \<open>isValidUrl\<close>, the test for that (\<^verbatim>\<open>new URL\<close> does
  not throw), is a parameter.  An error of the signer is caught and the local path
  returned.
\<close>

datatype assetType = VideoAsset | ThumbnailAsset

definition getProperAssetUrl ::
  "(string \<Rightarrow> bool) \<Rightarrow> bool \<Rightarrow> world \<Rightarrow> string \<Rightarrow> assetType \<Rightarrow> url" where
  "getProperAssetUrl isValidUrl use_s3 w path ty =
     (if isValidUrl path then Plain path
      else
        (case (if use_s3 \<and> fileExistsInS3 use_s3 w path
               then getPresignedUrl use_s3 w path (7 * 24 * 3600) else None) of
           Some presignedUrl \<Rightarrow> presignedUrl
         | None \<Rightarrow>
             Plain (if ty = VideoAsset then ''/uploads/'' @ path else ''/thumbnails/'' @ path)))"


section \<open>Delivery: \<^verbatim>\<open>GET /videos/:filename\<close> and \<^verbatim>\<open>GET /thumbnails/api/:filename\<close>\<close>

definition videosHandler :: "bool \<Rightarrow> world \<Rightarrow> string \<Rightarrow> string option \<Rightarrow> response" where
  "videosHandler use_s3 w filename rangeHeader =
     (case uploadDir w filename of
        Some content \<Rightarrow>
          (case streamLocalVideoFile content rangeHeader of
             Inr r \<Rightarrow> r
           | Inl err \<Rightarrow> sendText 500 ''Error processing video request'')
      | None \<Rightarrow>
          (if use_s3 then
             (let s3Key = ''uploads/'' @ filename in
              if fileExistsInS3 use_s3 w s3Key then
                (case getPresignedUrl use_s3 w s3Key 3600 of
                   Some presignedUrl \<Rightarrow> redirect presignedUrl
                 | None \<Rightarrow> sendText 404 ''Video not found'')
              else sendText 404 ''Video not found'')
           else sendText 404 ''Video not found''))"

text \<open>
  The thumbnail handler.  Asking for \<^verbatim>\<open>default-thumbnail.jpg\<close> itself creates the file
  when it is missing, so the handler returns the world as well.
\<close>

definition sendFile :: "image \<Rightarrow> response" where
  "sendFile img = respond 200 [] (Image img)"

definition svgResponse :: "string list \<Rightarrow> response" where
  "svgResponse ls = respond 200 [(''Content-Type'', ''image/svg+xml'')] (SvgPlaceholder ls)"

definition thumbKey :: "string \<Rightarrow> string" where
  "thumbKey filename =
     (if startsWith filename ''thumbnails/'' then filename else ''thumbnails/'' @ filename)"

definition thumbnailsApiHandler :: "bool \<Rightarrow> world \<Rightarrow> string \<Rightarrow> response \<times> world" where
  "thumbnailsApiHandler use_s3 w filename =
     (if filename = ''default-thumbnail.jpg'' then
        (case thumbnailDir w ''default-thumbnail.jpg'' of
           Some img \<Rightarrow> (sendFile img, w)
         | None \<Rightarrow>
             if canWrite w then
               (sendFile DefaultThumbnailPng,
                w\<lparr>thumbnailDir := (thumbnailDir w)(''default-thumbnail.jpg'' \<mapsto> DefaultThumbnailPng)\<rparr>)
             else (svgResponse [''ChatterTV'', ''Recovered Video''], w))
      else
        (case thumbnailDir w filename of
           Some img \<Rightarrow> (sendFile img, w)
         | None \<Rightarrow>
             (let s3Key = thumbKey filename;
                  fromS3 =
                    (if use_s3 \<and> fileExistsInS3 use_s3 w s3Key
                     then map_option redirect (getPresignedUrl use_s3 w s3Key (7 * 24 * 3600))
                     else None)
              in case fromS3 of
                   Some r \<Rightarrow> (r, w)
                 | None \<Rightarrow>
                     (case thumbnailDir w ''default-thumbnail.jpg'' of
                        Some img \<Rightarrow> (sendFile img, w)
                      | None \<Rightarrow> (svgResponse [''ChatterTV''], w)))))"


section \<open>Configuration (\<^verbatim>\<open>server/s3.ts\<close>, \<^verbatim>\<open>server/deployment-config.ts\<close>)\<close>

record env =
  AWS_ACCESS_KEY_ID :: "string option"
  AWS_SECRET_ACCESS_KEY :: "string option"
  AWS_REGION :: "string option"
  AWS_S3_BUCKET :: "string option"
  REPLIT_DEPLOYMENT :: "string option"

text \<open>
  The configuration check of \<^verbatim>\<open>server/s3.ts\<close>, the module whose exports
  \<^verbatim>\<open>server/routes.ts\<close> imports.  It collects the required variables that are unset or
  empty and enables the store when there is none.  \<open>processEnv e\<close> is
  \<^verbatim>\<open>process.env\<close>.
\<close>

definition requiredVars :: "string list" where
  "requiredVars =
     [''AWS_ACCESS_KEY_ID'', ''AWS_SECRET_ACCESS_KEY'', ''AWS_REGION'', ''AWS_S3_BUCKET'']"

definition processEnv :: "env \<Rightarrow> string \<Rightarrow> string option" where
  "processEnv e varName =
     (if varName = ''AWS_ACCESS_KEY_ID'' then AWS_ACCESS_KEY_ID e
      else if varName = ''AWS_SECRET_ACCESS_KEY'' then AWS_SECRET_ACCESS_KEY e
      else if varName = ''AWS_REGION'' then AWS_REGION e
      else if varName = ''AWS_S3_BUCKET'' then AWS_S3_BUCKET e
      else if varName = ''REPLIT_DEPLOYMENT'' then REPLIT_DEPLOYMENT e
      else None)"

definition missingVars :: "env \<Rightarrow> string list" where
  "missingVars e = filter (\<lambda>varName. \<not> truthy (processEnv e varName)) requiredVars"

definition checkS3Configuration :: "env \<Rightarrow> bool" where
  "checkS3Configuration e = (if length (missingVars e) > 0 then False else True)"

definition USE_S3 :: "env \<Rightarrow> bool" where
  "USE_S3 e = checkS3Configuration e"

definition isProduction :: "env \<Rightarrow> bool" where
  "isProduction e = truthy (REPLIT_DEPLOYMENT e)"

definition disableMultipartUploads :: bool where
  "disableMultipartUploads = False"

definition enforceFileSizeLimit :: bool where
  "enforceFileSizeLimit = True"

definition deploymentMaxFileSize :: nat where
  "deploymentMaxFileSize = 500 * 1024 * 1024"


section \<open>The object store adapter\<close>

text \<open>
  The functions of the adapter, with \<^verbatim>\<open>USE_S3\<close> as a parameter.  \<open>None\<close> stands for a
  thrown error.  With \<open>use_s3\<close> false they throw (or return \<^verbatim>\<open>false\<close>).
\<close>

definition generatePresignedUploadUrl ::
  "bool \<Rightarrow> world \<Rightarrow> string \<Rightarrow> string \<Rightarrow> nat \<Rightarrow> (url \<times> string) option" where
  "generatePresignedUploadUrl use_s3 w key contentType expiresIn =
     (if \<not> use_s3 then None
      else
        (let finalKey = (if key \<noteq> [] then key else ''uploads/'' @ uuid w 0);
             normalizedKey = normalizeS3Key finalKey
         in if signerOk w then Some (Signed PutObject normalizedKey expiresIn, normalizedKey)
            else None))"

definition initiateMultipartUpload ::
  "bool \<Rightarrow> world \<Rightarrow> string \<Rightarrow> string \<Rightarrow> (string \<times> string) option" where
  "initiateMultipartUpload use_s3 w key contentType =
     (if \<not> use_s3 then None
      else if s3ApiOk w then Some (newUploadId w, normalizeS3Key key)
      else None)"

definition getMultipartPresignedUrl ::
  "bool \<Rightarrow> world \<Rightarrow> string \<Rightarrow> string \<Rightarrow> jsnum \<Rightarrow> nat \<Rightarrow> url option" where
  "getMultipartPresignedUrl use_s3 w key uploadId partNumber expiresIn =
     (if \<not> use_s3 then None
      else if signerOk w
        then Some (Signed (UploadPart uploadId partNumber) (normalizeS3Key key) expiresIn)
      else None)"

definition completeMultipartUpload ::
  "bool \<Rightarrow> world \<Rightarrow> string \<Rightarrow> string \<Rightarrow> (jsnum \<times> string) list \<Rightarrow> (url \<times> world) option" where
  "completeMultipartUpload use_s3 w key uploadId parts =
     (if \<not> use_s3 then None
      else
        (let normalizedKey = normalizeS3Key key
         in if s3ApiOk w then
              Some (ObjectUrl normalizedKey,
                    w\<lparr>finalized := finalized w @ [(normalizedKey, uploadId, parts)],
                      s3Has := (s3Has w)(normalizedKey := True)\<rparr>)
            else None))"

definition generatePresignedPost ::
  "bool \<Rightarrow> world \<Rightarrow> string \<Rightarrow> string \<Rightarrow> nat \<Rightarrow> nat \<Rightarrow> url option" where
  "generatePresignedPost use_s3 w fileName fileType fileSize expiresIn =
     (if \<not> use_s3 then None
      else
        (let fileExtension = last (splitOn (CHR ''.'') fileName);
             key = ''uploads/'' @ uuid w 1 @ ''.'' @ fileExtension
         in if signerOk w then Some (Signed PresignedPost (normalizeS3Key key) expiresIn)
            else None))"

definition getS3Url :: "bool \<Rightarrow> world \<Rightarrow> string \<Rightarrow> string" where
  "getS3Url use_s3 w s3Key = (if \<not> use_s3 then [] else s3Origin w @ ''/'' @ normalizeS3Key s3Key)"

definition uploadFileToS3 :: "bool \<Rightarrow> world \<Rightarrow> string \<Rightarrow> (string \<times> world) option" where
  "uploadFileToS3 use_s3 w s3Key =
     (if \<not> use_s3 then None
      else
        (let normalizedKey = normalizeS3Key s3Key
         in if s3PutOk w normalizedKey then
              Some (getS3Url use_s3 w normalizedKey,
                    w\<lparr>s3Has := (s3Has w)(normalizedKey := True)\<rparr>)
            else None))"

definition downloadFileFromS3 :: "bool \<Rightarrow> world \<Rightarrow> string \<Rightarrow> nat list option" where
  "downloadFileFromS3 use_s3 w s3Key =
     (if \<not> use_s3 then None
      else if s3ApiOk w \<and> s3Has w (normalizeS3Key s3Key) then Some (s3Body w (normalizeS3Key s3Key))
      else None)"


section \<open>The upload endpoints behind the \<^verbatim>\<open>USE_S3\<close> gate\<close>

definition s3NotConfigured :: "string \<Rightarrow> bool \<Rightarrow> response" where
  "s3NotConfigured msg fallback =
     json 400
       ([(''error'', S ''S3 not configured''), (''message'', S msg)]
        @ (if fallback then [(''fallbackAvailable'', B True)] else []))"

definition missingParameters :: "string \<Rightarrow> response" where
  "missingParameters msg = json 400 [(''error'', S ''Missing parameters''), (''message'', S msg)]"

text \<open>\<^verbatim>\<open>GET /api/upload-url\<close>.  The signing call leaves \<^verbatim>\<open>expiresIn\<close> at its default, 3600.\<close>

definition uploadUrlHandler :: "bool \<Rightarrow> world \<Rightarrow> string option \<Rightarrow> string option \<Rightarrow> response" where
  "uploadUrlHandler use_s3 w fileType fileName =
     (if \<not> use_s3 then
        s3NotConfigured
          ''S3 integration is disabled. Please use the standard upload endpoint.'' True
      else if \<not> truthy fileType \<or> \<not> truthy fileName then
        missingParameters ''fileType and fileName query parameters are required''
      else
        (let fileKey = ''uploads/'' @ uuid w 0 @ ''-'' @ the fileName
         in case generatePresignedUploadUrl use_s3 w fileKey (the fileType) 3600 of
              Some (uploadUrl, key) \<Rightarrow>
                json 200 [(''uploadUrl'', U uploadUrl), (''key'', S key), (''fields'', Fields []),
                          (''maxSize'', N (int (MAX_FILE_SIZE w)))]
            | None \<Rightarrow>
                json 500 [(''error'', S ''Failed to generate upload URL''),
                          (''message'',
                           S ''There was an error generating the upload URL. Please try again.'')]))"

text \<open>\<^verbatim>\<open>POST /api/multipart-upload/init\<close>; \<open>fileSize\<close> is the number in the JSON body.\<close>

definition multipartInitHandler ::
  "bool \<Rightarrow> world \<Rightarrow> string option \<Rightarrow> string option \<Rightarrow> nat option \<Rightarrow> response" where
  "multipartInitHandler use_s3 w fileName fileType fileSize =
     (if production w \<and> disableMultipartUploads then
        json 400
          [(''error'', S ''Multipart uploads disabled in deployment''),
           (''message'',
            S ''For security and reliability reasons, multipart uploads are disabled in the deployed version. Please use the standard upload endpoint or upload smaller files.''),
           (''fallbackAvailable'', B True),
           (''maxSizeBytes'', N (int deploymentMaxFileSize)),
           (''maxSizeMB'', N (int (deploymentMaxFileSize div 1024 div 1024)))]
      else if \<not> use_s3 then
        s3NotConfigured
          ''S3 integration is disabled. Please use the standard upload endpoint.'' False
      else if \<not> truthy fileName \<or> \<not> truthy fileType then
        missingParameters ''fileName and fileType are required''
      else if (case fileSize of None \<Rightarrow> False | Some n \<Rightarrow> n \<noteq> 0 \<and> n > MAX_FILE_SIZE w) then
        json 413 [(''error'', S ''File too large''), (''maxSizeBytes'', N (int (MAX_FILE_SIZE w)))]
      else
        (let fileKey = ''uploads/'' @ uuid w 0 @ ''-'' @ the fileName
         in case initiateMultipartUpload use_s3 w fileKey (the fileType) of
              Some (uploadId, key) \<Rightarrow> json 200 [(''uploadId'', S uploadId), (''key'', S key)]
            | None \<Rightarrow>
                json 500 [(''error'', S ''Failed to initiate upload''),
                          (''message'',
                           S ''There was an error initiating the multipart upload. Please try again.'')]))"

text \<open>\<^verbatim>\<open>GET /api/multipart-upload/part-url\<close>: a part URL is signed for three hours.\<close>

definition partUrlHandler ::
  "bool \<Rightarrow> world \<Rightarrow> string option \<Rightarrow> string option \<Rightarrow> string option \<Rightarrow> response" where
  "partUrlHandler use_s3 w key uploadId partNumber =
     (if \<not> use_s3 then
        s3NotConfigured
          ''S3 integration is disabled. Please use the standard upload endpoint.'' False
      else if \<not> truthy key \<or> \<not> truthy uploadId \<or> \<not> truthy partNumber then
        missingParameters ''key, uploadId, and partNumber query parameters are required''
      else
        (let partNum = parseIntAuto (the partNumber);
             expiryTime = 60 * 60 * 3
         in case getMultipartPresignedUrl use_s3 w (the key) (the uploadId) partNum expiryTime of
              Some partUrl \<Rightarrow> json 200 [(''partUrl'', U partUrl)]
            | None \<Rightarrow>
                json 500 [(''error'', S ''Failed to generate part URL''),
                          (''message'',
                           S ''There was an error generating the part upload URL. Please try again.'')]))"

text \<open>
  \<^verbatim>\<open>POST /api/multipart-upload/complete\<close>.  \<open>parts\<close> is \<open>None\<close> when the body has no
  \<^verbatim>\<open>parts\<close> array; an empty array passes the check.  The handler hands the array to the
  store as it came.
\<close>

definition multipartCompleteHandler ::
  "bool \<Rightarrow> world \<Rightarrow> string option \<Rightarrow> string option \<Rightarrow> (jsnum \<times> string) list option
     \<Rightarrow> response \<times> world" where
  "multipartCompleteHandler use_s3 w key uploadId parts =
     (if \<not> use_s3 then
        (s3NotConfigured
           ''S3 integration is disabled. Please use the standard upload endpoint.'' False, w)
      else if \<not> truthy key \<or> \<not> truthy uploadId \<or> parts = None then
        (missingParameters ''key, uploadId, and parts array are required'', w)
      else
        (case completeMultipartUpload use_s3 w (the key) (the uploadId) (the parts) of
           Some (fileUrl, w') \<Rightarrow>
             (json 200 [(''fileUrl'', U fileUrl), (''key'', S (the key))], w')
         | None \<Rightarrow>
             (json 500 [(''error'', S ''Failed to complete upload''),
                        (''message'',
                         S ''There was an error completing the multipart upload. Please try again.'')],
              w)))"

text \<open>
  \<^verbatim>\<open>POST /api/direct-upload/config\<close> with \<^verbatim>\<open>getDirectBrowserUploadConfig\<close>: a presigned
  POST above 150 MiB, a multipart session with one URL per part above 50 MiB, a single
  URL below; everything signed for one hour, or for 24 hours above 200 MiB.
\<close>

definition directExpiresIn :: "nat \<Rightarrow> nat" where
  "directExpiresIn fileSize = (if fileSize > 200 * 1024 * 1024 then 24 * 3600 else 3600)"

definition getDirectBrowserUploadConfig ::
  "bool \<Rightarrow> world \<Rightarrow> string \<Rightarrow> string \<Rightarrow> nat \<Rightarrow> (string \<times> jv) list option" where
  "getDirectBrowserUploadConfig use_s3 w fileName fileType fileSize =
     (if \<not> use_s3 then None
      else
        (let usePresignedPost = fileSize > 150 * 1024 * 1024;
             useMultipart = \<not> usePresignedPost \<and> fileSize > 50 * 1024 * 1024;
             fileExtension = last (splitOn (CHR ''.'') fileName);
             normalizedKey = normalizeS3Key (''uploads/'' @ uuid w 0 @ ''.'' @ fileExtension);
             expiresIn = directExpiresIn fileSize
         in if usePresignedPost then
              (case generatePresignedPost use_s3 w fileName fileType fileSize expiresIn of
                 None \<Rightarrow> None
               | Some postUrl \<Rightarrow>
                   Some [(''url'', U postUrl), (''fields'', Fields [(''Content-Type'', fileType)]),
                         (''key'', S normalizedKey), (''isMultipart'', B False),
                         (''maxPartSize'', N (int fileSize)), (''expiresIn'', N (int expiresIn)),
                         (''usePresignedPost'', B True)])
            else if useMultipart then
              (case initiateMultipartUpload use_s3 w normalizedKey fileType of
                 None \<Rightarrow> None
               | Some (uploadId, k) \<Rightarrow>
                   (let maxPartSize =
                          (if fileSize > 100 * 1024 * 1024 then 10 * 1024 * 1024
                           else 5 * 1024 * 1024 :: nat);
                        partCount = (fileSize + maxPartSize - 1) div maxPartSize;
                        urls = map (\<lambda>partNumber.
                                 getMultipartPresignedUrl use_s3 w normalizedKey uploadId
                                   (Some (int partNumber)) expiresIn)
                               [1 ..< partCount + 1]
                    in if None \<in> set urls then None
                       else
                         Some ([(''uploadId'', S uploadId), (''key'', S normalizedKey)]
                               @ map (\<lambda>u. (''urls'', U (the u))) urls
                               @ [(''isMultipart'', B True), (''maxPartSize'', N (int maxPartSize)),
                                  (''expiresIn'', N (int expiresIn)),
                                  (''usePresignedPost'', B False)])))
            else
              (case generatePresignedUploadUrl use_s3 w normalizedKey fileType expiresIn of
                 None \<Rightarrow> None
               | Some (uploadUrl, k) \<Rightarrow>
                   Some [(''key'', S normalizedKey), (''urls'', U uploadUrl),
                         (''isMultipart'', B False), (''maxPartSize'', N (int fileSize)),
                         (''expiresIn'', N (int expiresIn)), (''usePresignedPost'', B False)])))"

definition directUploadConfigHandler ::
  "bool \<Rightarrow> world \<Rightarrow> string option \<Rightarrow> string option \<Rightarrow> nat option \<Rightarrow> response" where
  "directUploadConfigHandler use_s3 w fileName fileType fileSize =
     (if \<not> use_s3 then
        s3NotConfigured
          ''S3 integration is disabled. Use the standard file upload endpoint.'' True
      else if \<not> truthy fileName \<or> \<not> truthy fileType \<or> fileSize = None \<or> fileSize = Some 0 then
        missingParameters
          ''Missing required parameters. Please provide fileName, fileType, and fileSize.''
      else
        (case getDirectBrowserUploadConfig use_s3 w (the fileName) (the fileType) (the fileSize) of
           Some uploadConfig \<Rightarrow> json 200 uploadConfig
         | None \<Rightarrow>
             json 500 [(''error'', S ''Failed to generate upload configuration'')]))"

definition directUploadCompleteHandler ::
  "bool \<Rightarrow> world \<Rightarrow> string option \<Rightarrow> string option \<Rightarrow> (jsnum \<times> string) list option
     \<Rightarrow> response \<times> world" where
  "directUploadCompleteHandler use_s3 w key uploadId parts =
     (if \<not> use_s3 then (s3NotConfigured ''S3 integration is disabled.'' False, w)
      else if \<not> truthy key \<or> \<not> truthy uploadId \<or> parts = None then
        (missingParameters
           ''Missing required parameters. Please provide key, uploadId, and parts array.'', w)
      else
        (case completeMultipartUpload use_s3 w (the key) (the uploadId) (the parts) of
           Some (fileUrl, w') \<Rightarrow>
             (json 200 [(''success'', B True), (''fileUrl'', U fileUrl), (''key'', S (the key))], w')
         | None \<Rightarrow> (json 500 [(''error'', S ''Failed to complete upload'')], w)))"


section \<open>Registering and relaying uploads\<close>

text \<open>
  The JSON body of the two registration endpoints, and the multipart form of the relayed
  upload.  A missing field is \<open>None\<close>.
\<close>

record registration =
  regKey :: "string option"
  regTitle :: "string option"
  regDescription :: "string option"
  regDuration :: "int option"
  regCategory :: "string option"
  regTags :: "string option"
  regIsFeatured :: bool
  regIsContest :: bool
  regIsAI :: bool

record uploadedFile =
  originalname :: string
  mimetype :: string
  fileBytes :: "nat list"

record uploadForm =
  formFile :: "uploadedFile option"
  formTitle :: "string option"
  formDescription :: "string option"
  formDuration :: "string option"
  formCategory :: "string option"
  formTags :: "string option"
  formIsFeatured :: "string option"
  formIsContest :: "string option"
  formIsAI :: "string option"

definition videoJson :: "video \<Rightarrow> (string \<times> jv) list" where
  "videoJson v =
     [(''title'', S (videoTitle v)), (''description'', S (videoDescription v)),
      (''duration'', N (videoDuration v)), (''filePath'', S (filePath v)),
      (''thumbnailPath'', S (thumbnailPath v)), (''category'', S (videoCategory v)),
      (''isFeatured'', B (isFeatured v)), (''isContest'', B (isContest v)), (''isAI'', B (isAI v))]"

text \<open>
  \<^verbatim>\<open>generateThumbnail\<close> runs ffmpeg; on success the thumbnail file exists afterwards.
\<close>

definition generateThumbnail :: "world \<Rightarrow> string \<Rightarrow> bool \<times> world" where
  "generateThumbnail w thumbnailName =
     (case ffmpegFrame w of
        None \<Rightarrow> (False, w)
      | Some frame \<Rightarrow> (True, w\<lparr>thumbnailDir := (thumbnailDir w)(thumbnailName \<mapsto> Picture frame)\<rparr>))"

definition tagsOf :: "string option \<Rightarrow> string list" where
  "tagsOf t = (if truthy t then splitOn (CHR '','') (the t) else [])"

text \<open>The answer of \<^verbatim>\<open>POST /api/videos/s3\<close> when anything after the gate throws.\<close>

definition s3Failed :: response where
  "s3Failed =
     json 500 [(''error'', S ''Failed to process upload''),
               (''message'',
                S ''There was an error processing the uploaded video. Please try again.'')]"

text \<open>The record that \<^verbatim>\<open>POST /api/videos/s3\<close> validates and stores.\<close>

definition s3VideoData :: "registration \<Rightarrow> string \<Rightarrow> string \<Rightarrow> string \<Rightarrow> video" where
  "s3VideoData req key thumbnailUrl thumbnailFilename =
     \<lparr>videoTitle = orElse (regTitle req) (basename key),
      videoDescription = orElse (regDescription req) [],
      videoDuration = (case regDuration req of None \<Rightarrow> 0 | Some d \<Rightarrow> d),
      filePath = key,
      thumbnailPath = (if thumbnailUrl \<noteq> [] then thumbnailUrl else thumbnailFilename),
      videoCategory = orElse (regCategory req) [],
      videoTags = tagsOf (regTags req),
      isFeatured = regIsFeatured req,
      isContest = regIsContest req,
      isAI = regIsAI req\<rparr>"

text \<open>The record that \<^verbatim>\<open>processVideoUpload\<close> validates and stores.\<close>

definition formVideoData :: "uploadForm \<Rightarrow> string \<Rightarrow> int \<Rightarrow> string \<Rightarrow> string \<Rightarrow> video" where
  "formVideoData form t d videoPath thumbPath =
     \<lparr>videoTitle = t,
      videoDescription = orElse (formDescription form) [],
      videoDuration = d,
      filePath = videoPath,
      thumbnailPath = thumbPath,
      videoCategory = orElse (formCategory form) [],
      videoTags = tagsOf (formTags form),
      isFeatured = (formIsFeatured form = Some ''true''),
      isContest = (formIsContest form = Some ''true''),
      isAI = (formIsAI form = Some ''true'')\<rparr>"

text \<open>
  Both registration handlers upload the thumbnail when it was generated and keep the URL
  they get back; without a thumbnail the URL stays empty.
\<close>

definition uploadThumbnail :: "bool \<Rightarrow> world \<Rightarrow> bool \<Rightarrow> string \<Rightarrow> (string \<times> world) option" where
  "uploadThumbnail use_s3 w thumbnailSuccess thumbnailName =
     (if thumbnailSuccess then uploadFileToS3 use_s3 w (''thumbnails/'' @ thumbnailName)
      else Some ([], w))"

text \<open>
  \<^verbatim>\<open>POST /api/videos/s3\<close>: the object is already in the remote store.  It is downloaded to
  a temporary file in the upload directory for the thumbnail, and the temporary file is
  removed again on every path; the record keeps the remote key.
\<close>

definition videosS3Handler :: "bool \<Rightarrow> world \<Rightarrow> registration \<Rightarrow> response \<times> world" where
  "videosS3Handler use_s3 w req =
     (if \<not> use_s3 then
        (s3NotConfigured
           ''S3 integration is disabled. Please use the standard upload endpoint.'' True, w)
      else if \<not> truthy (regKey req) then
        (json 400 [(''error'', S ''Missing key''), (''message'', S ''S3 object key is required'')], w)
      else
        (let key = the (regKey req);
             tempFile = ''temp-'' @ uuid w 0 @ ''.mp4'';
             thumbnailFilename = ''thumbnail-'' @ uuid w 1 @ ''.jpg'';
             failed = s3Failed
         in case downloadFileFromS3 use_s3 w key of
              None \<Rightarrow> (failed, w)
            | Some bytes \<Rightarrow>
                (let w1 = w\<lparr>uploadDir := (uploadDir w)(tempFile \<mapsto> bytes)\<rparr>;
                     (thumbnailSuccess, w2) = generateThumbnail w1 thumbnailFilename;
                     unlinked = (\<lambda>x. x\<lparr>uploadDir := (uploadDir x)(tempFile := None)\<rparr>)
                 in case uploadThumbnail use_s3 w2 thumbnailSuccess thumbnailFilename of
                      None \<Rightarrow> (failed, unlinked w2)
                    | Some (thumbnailUrl, w3) \<Rightarrow>
                        (let w4 = unlinked w3;
                             v = s3VideoData req key thumbnailUrl thumbnailFilename
                         in if dbOk w4 then (json 201 (videoJson v), w4\<lparr>videos := videos w4 @ [v]\<rparr>)
                            else (failed, w4)))))"

text \<open>
  \<^verbatim>\<open>POST /api/direct-upload/register\<close> does the same for a browser-direct upload, with its
  temporary file outside the upload directory.
\<close>

definition directUploadRegisterHandler ::
  "bool \<Rightarrow> world \<Rightarrow> registration \<Rightarrow> response \<times> world" where
  "directUploadRegisterHandler use_s3 w req =
     (if \<not> use_s3 then (s3NotConfigured ''S3 integration is disabled.'' False, w)
      else if \<not> truthy (regKey req) \<or> \<not> truthy (regTitle req) then
        (missingParameters
           ''Missing required parameters. Please provide key and title at minimum.'', w)
      else
        (let key = the (regKey req);
             thumbnailName = ''thumbnail-'' @ uuid w 0 @ ''.jpg'';
             failed = json 500 [(''error'', S ''Failed to register upload'')]
         in case downloadFileFromS3 use_s3 w key of
              None \<Rightarrow> (failed, w)
            | Some bytes \<Rightarrow>
                (let (thumbnailSuccess, w2) = generateThumbnail w thumbnailName
                 in case uploadThumbnail use_s3 w2 thumbnailSuccess thumbnailName of
                      None \<Rightarrow> (failed, w2)
                    | Some (thumbnailUrl, w3) \<Rightarrow>
                        (let v = \<lparr>videoTitle = the (regTitle req),
                                  videoDescription = orElse (regDescription req) [],
                                  videoDuration = (case regDuration req of None \<Rightarrow> 0 | Some d \<Rightarrow> d),
                                  filePath = key,
                                  thumbnailPath = thumbnailUrl,
                                  videoCategory = orElse (regCategory req) [],
                                  videoTags = tagsOf (regTags req),
                                  isFeatured = False,
                                  isContest = regIsContest req,
                                  isAI = regIsAI req\<rparr>
                         in if dbOk w3 then (json 200 (videoJson v), w3\<lparr>videos := videos w3 @ [v]\<rparr>)
                            else (failed, w3)))))"

text \<open>
  The relayed upload, \<^verbatim>\<open>POST /api/videos\<close>.  The multipart parser (multer with disk
  storage) runs first: it applies the file filter, writes the file into the upload
  directory under a fresh name and enforces the size limit; then \<^verbatim>\<open>processVideoUpload\<close>
  runs.
\<close>

definition videoExtensions :: "string list" where
  "videoExtensions = [''mp4'', ''mov'', ''avi'', ''webm'', ''mkv'', ''flv'', ''wmv'', ''ogg'', ''3gp'']"

definition fileFilter :: "uploadedFile \<Rightarrow> bool" where
  "fileFilter f \<longleftrightarrow>
     startsWith (mimetype f) ''video/''
       \<or> list_ex (contains (toLowerCase (extname (originalname f)))) videoExtensions"

definition effectiveFileSize :: "world \<Rightarrow> nat" where
  "effectiveFileSize w =
     (if production w \<and> enforceFileSizeLimit then deploymentMaxFileSize else MAX_FILE_SIZE w)"

text \<open>
  The \<^verbatim>\<open>if (USE_S3) { try { ... } catch { ... } }\<close> block of \<^verbatim>\<open>processVideoUpload\<close>:
  it starts from the local names and replaces each by the remote key once the
  corresponding upload has succeeded; a throw leaves what has been assigned so far.
\<close>

definition tryUploadToS3 ::
  "bool \<Rightarrow> world \<Rightarrow> string \<Rightarrow> string \<Rightarrow> bool \<Rightarrow> string \<times> string \<times> world" where
  "tryUploadToS3 use_s3 w1 filename thumbnailFilename thumbnailSuccess =
     (if use_s3 then
        (case uploadFileToS3 use_s3 w1 (''uploads/'' @ filename) of
           None \<Rightarrow> (filename, thumbnailFilename, w1)
         | Some (s3VideoUrl, wa) \<Rightarrow>
             if thumbnailSuccess then
               (case uploadFileToS3 use_s3 wa (''thumbnails/'' @ thumbnailFilename) of
                  None \<Rightarrow> (''uploads/'' @ filename, thumbnailFilename, wa)
                | Some (s3ThumbnailUrl, wb) \<Rightarrow>
                    (''uploads/'' @ filename, ''thumbnails/'' @ thumbnailFilename, wb))
             else (''uploads/'' @ filename, thumbnailFilename, wa))
      else (filename, thumbnailFilename, w1))"

definition processVideoUpload ::
  "bool \<Rightarrow> world \<Rightarrow> uploadForm \<Rightarrow> (string \<times> uploadedFile) option \<Rightarrow> response \<times> world" where
  "processVideoUpload use_s3 w form reqFile =
     (case reqFile of
        None \<Rightarrow>
          (json 400 [(''message'', S ''No video file uploaded''), (''code'', S ''MISSING_FILE'')], w)
      | Some (filename, f) \<Rightarrow>
          (let thumbnailFilename = ''thumbnail-'' @ uuid w 1 @ ''.jpg'';
               (thumbnailSuccess, w1) = generateThumbnail w thumbnailFilename;
               (videoPath, thumbPath, w2) =
                 tryUploadToS3 use_s3 w1 filename thumbnailFilename thumbnailSuccess
           in case (formTitle form, parseIntAuto (orElse (formDuration form) ''0'')) of
                (Some t, Some d) \<Rightarrow>
                  (let v = formVideoData form t d videoPath thumbPath
                   in if dbOk w2 then (json 201 (videoJson v), w2\<lparr>videos := videos w2 @ [v]\<rparr>)
                      else (json 500 [(''message'', S ''Failed to upload video'')], w2))
              | _ \<Rightarrow> (json 400 [(''message'', S ''Validation error'')], w2)))"

definition postVideos :: "bool \<Rightarrow> world \<Rightarrow> uploadForm \<Rightarrow> response \<times> world" where
  "postVideos use_s3 w form =
     (case formFile form of
        None \<Rightarrow> processVideoUpload use_s3 w form None
      | Some f \<Rightarrow>
          if \<not> fileFilter f then
            (json 500 [(''message'', S ''File upload failed''),
                       (''error'', S ''Error: Only video files are allowed!''),
                       (''code'', S ''UPLOAD_FAILED'')], w)
          else if length (fileBytes f) > effectiveFileSize w then
            (json 413 [(''message'', S ''File is too large''), (''code'', S ''FILE_TOO_LARGE'')], w)
          else
            (let uniqueFilename = uuid w 0 @ extname (originalname f)
             in processVideoUpload use_s3
                  (w\<lparr>uploadDir := (uploadDir w)(uniqueFilename \<mapsto> fileBytes f)\<rparr>)
                  form (Some (uniqueFilename, f))))"


section \<open>The upload client (\<^verbatim>\<open>UploadModal\<close>)\<close>

record browserFile =
  file_name :: string
  file_type :: string
  file_size :: nat

definition MEDIUM_FILE_THRESHOLD :: nat where
  "MEDIUM_FILE_THRESHOLD = 50 * 1024 * 1024"

definition LARGE_FILE_THRESHOLD :: nat where
  "LARGE_FILE_THRESHOLD = 150 * 1024 * 1024"

definition VERY_LARGE_FILE_THRESHOLD :: nat where
  "VERY_LARGE_FILE_THRESHOLD = 400 * 1024 * 1024"

definition MULTIPART_THRESHOLD :: nat where
  "MULTIPART_THRESHOLD = 100 * 1024 * 1024"

definition MAX_RETRIES :: nat where
  "MAX_RETRIES = 3"

text \<open>\<^verbatim>\<open>DEPLOYMENT_CONFIG.maxFileSize\<close> and \<^verbatim>\<open>devMaxFileSize\<close> of the client are both 500 MiB.\<close>

definition clientMaxFileSize :: nat where
  "clientMaxFileSize = 500 * 1024 * 1024"

text \<open>
  Selecting a file (the input's change handler and the drop handler make the same two
  checks): a file that is not a video, or that is larger than the limit, is not selected.
\<close>

definition endsWith :: "string \<Rightarrow> string \<Rightarrow> bool" where
  "endsWith s suffix = startsWith (rev s) (rev suffix)"

definition isVideo :: "browserFile \<Rightarrow> bool" where
  "isVideo f \<longleftrightarrow>
     startsWith (file_type f) ''video/''
       \<or> list_ex (endsWith (toLowerCase (file_name f)))
            [''.mp4'', ''.mov'', ''.webm'', ''.ogg'', ''.avi'', ''.mkv'', ''.flv'']"

definition handleFileChange :: "browserFile \<Rightarrow> browserFile option" where
  "handleFileChange f =
     (if \<not> isVideo f then None
      else if file_size f > clientMaxFileSize then None
      else Some f)"

text \<open>
  What the network answers.  Every request either succeeds or fails (a rejected
  \<^verbatim>\<open>fetch\<close> and a response that is not \<^verbatim>\<open>ok\<close> both end in the same \<^verbatim>\<open>throw\<close>);
  the request for an upload URL and the initialisation of a multipart upload can also
  fail with the server's notice that the remote store is disabled.  The answers for a
  part depend on the part number and on the attempt (\<^verbatim>\<open>retryCount\<close>); \<open>partETag\<close> is
  the \<^verbatim>\<open>ETag\<close> header of the store's answer.  The standard upload ends in one of
  three ways: the server stores the file, the server answers with an error status (which
  the \<^verbatim>\<open>load\<close> handler announces by a toast before it rejects), or there is no usable
  answer (a network error, an abort, a timeout, an answer that does not parse).
\<close>

datatype urlReply = UrlGranted | UrlFallback | UrlRefused

datatype initReply = InitGranted | InitDisabled | InitRefused

datatype relayReply = RelayStored | RelayHttpError | RelayNoAnswer

record net =
  configOk :: bool
  configHasPost :: bool
  postOk :: bool
  directRegisterOk :: bool
  uploadUrlReply :: urlReply
  putOk :: bool
  registerOk :: bool
  initReply :: initReply
  partUrlOk :: "nat \<Rightarrow> nat \<Rightarrow> bool"
  partPutOk :: "nat \<Rightarrow> nat \<Rightarrow> bool"
  partETag :: "nat \<Rightarrow> nat \<Rightarrow> string option"
  completeOk :: bool
  relayReply :: relayReply

text \<open>
  What the client does, in order: each request with its outcome, the toasts it shows and
  the pauses of the retry loop.  \<open>UploadUrl True\<close>, \<open>PartUrl p True\<close> and
  \<open>DirectConfig True\<close> are the requests on which the server has issued a signed upload
  URL (or POST policy).
\<close>

datatype event =
    DirectConfig bool
  | DirectPost bool
  | DirectRegister bool
  | UploadUrl bool
  | PutWhole bool
  | Register bool
  | MultipartInit bool
  | PartUrl nat bool
  | PartPut nat nat nat bool
  | Sleep nat
  | MissingPartsLogged "nat list"
  | Complete "(nat \<times> string) list" bool
  | Relay bool
  | Toast string

text \<open>
  The errors that the client throws.  The text of a \<open>RequestFailed\<close> is the fixed text
  of the \<^verbatim>\<open>throw\<close> in the source; where the server's answer carries a message of its
  own, that message takes its place.
\<close>

datatype uploadError =
    NoTitleOrFile
  | TooLarge nat
  | S3NotAvailable
  | RequestFailed string
  | NoETag nat
  | TooManyParts nat
  | FailedParts nat nat
  | UploadIncomplete int nat

datatype strategy = ServerRelayed | ServerAssistedDirect | BrowserDirect

subsection \<open>Multipart upload inside \<^verbatim>\<open>uploadDirectlyToS3\<close>\<close>

definition partSizeFor :: "nat \<Rightarrow> nat" where
  "partSizeFor fileSize =
     (if fileSize > 500 * 1024 * 1024 then 25 * 1024 * 1024
      else if fileSize > 100 * 1024 * 1024 then 10 * 1024 * 1024
      else 5 * 1024 * 1024)"

text \<open>
  \<^verbatim>\<open>Math.ceil(file.size / partSize)\<close>.  A file size is an integer below \<open>2^53\<close>, where
  the rounded quotient has the same ceiling as the exact one.
\<close>

definition numPartsFor :: "nat \<Rightarrow> nat" where
  "numPartsFor fileSize = (fileSize + partSizeFor fileSize - 1) div partSizeFor fileSize"

definition batchSizeFor :: "nat \<Rightarrow> nat" where
  "batchSizeFor fileSize =
     (if partSizeFor fileSize \<ge> 25 * 1024 * 1024 then 2
      else if partSizeFor fileSize \<le> 5 * 1024 * 1024 \<and> fileSize < 200 * 1024 * 1024 then 4
      else 3)"

text \<open>
  The state that the part uploads share: the trace, the \<^verbatim>\<open>parts\<close> array (part number
  and ETag, in the order of the pushes) and the counter \<^verbatim>\<open>failedParts\<close>.
\<close>

record mpState =
  mp_trace :: "event list"
  mp_parts :: "(nat \<times> string) list"
  mp_failed :: nat

definition logged :: "event list \<Rightarrow> mpState \<Rightarrow> mpState" where
  "logged es st = st\<lparr>mp_trace := mp_trace st @ es\<rparr>"

text \<open>
  One pass through the \<^verbatim>\<open>try\<close> block of \<^verbatim>\<open>uploadSinglePart\<close>: slice, part URL, PUT,
  ETag, push.  The result is the thrown error, if any.
\<close>

definition attemptPart ::
  "net \<Rightarrow> browserFile \<Rightarrow> nat \<Rightarrow> nat \<Rightarrow> mpState \<Rightarrow> uploadError option \<times> mpState" where
  "attemptPart nw f partNumber retryCount st =
     (let partSize = partSizeFor (file_size f);
          start = (partNumber - 1) * partSize;
          end = min (start + partSize) (file_size f)
      in if \<not> partUrlOk nw partNumber retryCount then
           (Some (RequestFailed ''Failed to get part upload URL''),
            logged [PartUrl partNumber False] st)
         else if \<not> partPutOk nw partNumber retryCount then
           (Some (RequestFailed ''Failed to upload part''),
            logged [PartUrl partNumber True, PartPut partNumber start end False] st)
         else
           (case partETag nw partNumber retryCount of
              None \<Rightarrow>
                (Some (NoETag partNumber),
                 logged [PartUrl partNumber True, PartPut partNumber start end True] st)
            | Some etag \<Rightarrow>
                if etag = [] then
                  (Some (NoETag partNumber),
                   logged [PartUrl partNumber True, PartPut partNumber start end True] st)
                else
                  (None,
                   (logged [PartUrl partNumber True, PartPut partNumber start end True] st)
                     \<lparr>mp_parts := mp_parts st
                                    @ [(partNumber, filter (\<lambda>c. c \<noteq> CHR 0x22) etag)]\<rparr>)))"

text \<open>
  The retry loop \<^verbatim>\<open>while (!uploaded && retryCount <= MAX_RETRIES)\<close>: after a failure the
  counter goes up; within the limit the loop pauses \<open>2^(retryCount - 1)\<close> seconds and
  goes round again, beyond it \<^verbatim>\<open>failedParts\<close> goes up and the error is rethrown.
\<close>

function uploadSinglePart ::
  "net \<Rightarrow> browserFile \<Rightarrow> nat \<Rightarrow> nat \<Rightarrow> mpState \<Rightarrow> uploadError option \<times> mpState" where
  "uploadSinglePart nw f partNumber retryCount st =
     (if retryCount \<le> MAX_RETRIES then
        (case attemptPart nw f partNumber retryCount st of
           (None, st') \<Rightarrow> (None, st')
         | (Some err, st') \<Rightarrow>
             if retryCount + 1 \<le> MAX_RETRIES then
               uploadSinglePart nw f partNumber (retryCount + 1)
                 (logged [Sleep (2 ^ retryCount * 1000)] st')
             else (Some err, st'\<lparr>mp_failed := mp_failed st' + 1\<rparr>))
      else (None, st))"
  by pat_completeness auto
termination
  by (relation "measure (\<lambda>(nw, f, partNumber, retryCount, st). MAX_RETRIES + 1 - retryCount)") auto

declare uploadSinglePart.simps [simp del]

text \<open>
  A batch: every part of it is started, and \<^verbatim>\<open>Promise.all\<close> rejects with the first
  rejection.  The parts of a batch run concurrently in the browser; here they run one
  after the other, each to its end.
\<close>

fun runBatch ::
  "net \<Rightarrow> browserFile \<Rightarrow> nat list \<Rightarrow> mpState \<Rightarrow> uploadError option \<times> mpState" where
  "runBatch nw f [] st = (None, st)"
| "runBatch nw f (partNumber # rest) st =
     (case uploadSinglePart nw f partNumber 0 st of
        (e1, st1) \<Rightarrow>
          (case runBatch nw f rest st1 of
             (e2, st2) \<Rightarrow> ((case e1 of Some err \<Rightarrow> Some err | None \<Rightarrow> e2), st2)))"

function batchLoop ::
  "net \<Rightarrow> browserFile \<Rightarrow> nat \<Rightarrow> mpState \<Rightarrow> uploadError option \<times> mpState" where
  "batchLoop nw f currentPart st =
     (if currentPart \<le> numPartsFor (file_size f) then
        (case runBatch nw f
                [currentPart ..< min (currentPart + batchSizeFor (file_size f))
                                   (numPartsFor (file_size f) + 1)] st of
           (Some err, st') \<Rightarrow> (Some err, st')
         | (None, st') \<Rightarrow> batchLoop nw f (currentPart + batchSizeFor (file_size f)) st')
      else (None, st))"
  by pat_completeness auto
termination
proof (relation "measure (\<lambda>(nw, f, currentPart, st). numPartsFor (file_size f) + 1 - currentPart)")
  show "wf (measure (\<lambda>(nw, f, currentPart, st). numPartsFor (file_size f) + 1 - currentPart))"
    by simp
next
  fix nw :: net and f :: browserFile and currentPart :: nat and st x :: mpState
    and y :: "uploadError option"
  assume "currentPart \<le> numPartsFor (file_size f)"
  moreover have "0 < batchSizeFor (file_size f)"
    by (simp add: batchSizeFor_def)
  ultimately show "((nw, f, currentPart + batchSizeFor (file_size f), x), nw, f, currentPart, st)
        \<in> measure (\<lambda>(nw, f, currentPart, st). numPartsFor (file_size f) + 1 - currentPart)"
    by simp
qed

declare batchLoop.simps [simp del]

text \<open>The state after a granted initialisation: nothing recorded yet.\<close>

definition mpStart :: mpState where
  "mpStart = \<lparr>mp_trace = [MultipartInit True], mp_parts = [], mp_failed = 0\<rparr>"

text \<open>The check before completion: the count of recorded parts against the expected count.\<close>

definition missingParts :: "(nat \<times> string) list \<Rightarrow> nat \<Rightarrow> nat list" where
  "missingParts ps numParts = filter (\<lambda>i. i \<notin> set (map fst ps)) [1 ..< numParts + 1]"

definition verifyParts :: "(nat \<times> string) list \<Rightarrow> nat \<Rightarrow> (uploadError \<times> event list) option" where
  "verifyParts ps numParts =
     (if length ps \<noteq> numParts then
        Some (UploadIncomplete (int numParts - int (length ps)) numParts,
              [MissingPartsLogged (missingParts ps numParts)])
      else None)"

definition uploadDirectlyToS3 :: "net \<Rightarrow> browserFile \<Rightarrow> uploadError option \<times> event list" where
  "uploadDirectlyToS3 nw f =
     (if \<not> file_size f > MULTIPART_THRESHOLD then
        (case uploadUrlReply nw of
           UrlFallback \<Rightarrow> (Some S3NotAvailable, [UploadUrl False])
         | UrlRefused \<Rightarrow> (Some (RequestFailed ''Failed to get upload URL''), [UploadUrl False])
         | UrlGranted \<Rightarrow>
             if \<not> putOk nw then
               (Some (RequestFailed ''Failed to upload to S3''), [UploadUrl True, PutWhole False])
             else if \<not> registerOk nw then
               (Some (RequestFailed ''Failed to register video''),
                [UploadUrl True, PutWhole True, Register False])
             else (None, [UploadUrl True, PutWhole True, Register True]))
      else
        (case initReply nw of
           InitDisabled \<Rightarrow> (Some S3NotAvailable, [MultipartInit False])
         | InitRefused \<Rightarrow>
             (Some (RequestFailed ''Failed to initialize multipart upload''), [MultipartInit False])
         | InitGranted \<Rightarrow>
             (let numParts = numPartsFor (file_size f)
              in if numParts > 10000 then (Some (TooManyParts numParts), [MultipartInit True])
                 else
                   (case batchLoop nw f 1 mpStart of
                      (Some err, st) \<Rightarrow> (Some err, mp_trace st)
                    | (None, st) \<Rightarrow>
                        if mp_failed st > 0 then
                          (Some (FailedParts (mp_failed st) numParts), mp_trace st)
                        else
                          (case verifyParts (mp_parts st) numParts of
                             Some (err, es) \<Rightarrow> (Some err, mp_trace st @ es)
                           | None \<Rightarrow>
                               if \<not> completeOk nw then
                                 (Some (RequestFailed ''Failed to complete multipart upload''),
                                  mp_trace st
                                    @ [Complete (mp_parts st) False, Toast ''Upload Error''])
                               else if \<not> registerOk nw then
                                 (Some (RequestFailed ''Failed to register video''),
                                  mp_trace st @ [Complete (mp_parts st) True, Register False])
                               else
                                 (None,
                                  mp_trace st @ [Complete (mp_parts st) True, Register True]))))))"

subsection \<open>Browser-direct upload and the choice of strategy\<close>

definition trueBrowserDirectUpload :: "net \<Rightarrow> browserFile \<Rightarrow> uploadError option \<times> event list" where
  "trueBrowserDirectUpload nw f =
     (if \<not> configOk nw then
        (Some (RequestFailed ''Could not get upload configuration''), [DirectConfig False])
      else if \<not> configHasPost nw then
        (Some (RequestFailed ''Missing presigned POST configuration for direct browser upload''),
         [DirectConfig True])
      else if \<not> postOk nw then
        (Some (RequestFailed ''S3 upload failed''), [DirectConfig True, DirectPost False])
      else if \<not> directRegisterOk nw then
        (Some (RequestFailed ''Failed to register uploaded video''),
         [DirectConfig True, DirectPost True, DirectRegister False])
      else (None, [DirectConfig True, DirectPost True, DirectRegister True]))"

text \<open>The standard upload through the server, \<^verbatim>\<open>POST /api/videos\<close> by XMLHttpRequest.\<close>

definition standardUpload :: "net \<Rightarrow> event list \<Rightarrow> (uploadError + strategy) \<times> event list" where
  "standardUpload nw es =
     (case relayReply nw of
        RelayStored \<Rightarrow> (Inr ServerRelayed, es @ [Relay True])
      | RelayHttpError \<Rightarrow>
          (Inl (RequestFailed ''Upload failed''), es @ [Relay False, Toast ''Upload Error''])
      | RelayNoAnswer \<Rightarrow>
          (Inl (RequestFailed ''Network error during upload''), es @ [Relay False]))"

text \<open>
  \<^verbatim>\<open>uploadMutation.mutationFn\<close>.  Above 150 MiB the browser-direct upload is tried first
  and a failure falls through; above 50 MiB the server-assisted upload is tried and a
  failure is announced by a toast and falls through; then comes the standard upload.
  (The branch for sizes above \<^verbatim>\<open>VERY_LARGE_FILE_THRESHOLD\<close> sits in the \<^verbatim>\<open>else\<close> of the
  50 MiB test and only logs.)
\<close>

definition assistedOrStandard ::
  "net \<Rightarrow> browserFile \<Rightarrow> event list \<Rightarrow> (uploadError + strategy) \<times> event list" where
  "assistedOrStandard nw f es0 =
     (if file_size f > MEDIUM_FILE_THRESHOLD then
        (case uploadDirectlyToS3 nw f of
           (None, es) \<Rightarrow> (Inr ServerAssistedDirect, es0 @ es)
         | (Some s3Error, es) \<Rightarrow> standardUpload nw (es0 @ es @ [Toast ''S3 Upload Failed'']))
      else standardUpload nw es0)"

definition mutationFn ::
  "net \<Rightarrow> browserFile option \<Rightarrow> string \<Rightarrow> (uploadError + strategy) \<times> event list" where
  "mutationFn nw selectedFile title =
     (case selectedFile of
        None \<Rightarrow> (Inl NoTitleOrFile, [])
      | Some f \<Rightarrow>
          if title = [] then (Inl NoTitleOrFile, [])
          else if file_size f > clientMaxFileSize then
            (Inl (TooLarge (clientMaxFileSize div (1024 * 1024))), [])
          else if file_size f > LARGE_FILE_THRESHOLD then
            (case trueBrowserDirectUpload nw f of
               (None, es) \<Rightarrow> (Inr BrowserDirect, es)
             | (Some err, es) \<Rightarrow> assistedOrStandard nw f es)
          else assistedOrStandard nw f [])"

text \<open>The mutation with its \<^verbatim>\<open>onSuccess\<close> and \<^verbatim>\<open>onError\<close> toasts.\<close>

definition uploadMutation ::
  "net \<Rightarrow> browserFile option \<Rightarrow> string \<Rightarrow> (uploadError + strategy) \<times> event list" where
  "uploadMutation nw selectedFile title =
     (case mutationFn nw selectedFile title of
        (Inl err, es) \<Rightarrow> (Inl err, es @ [Toast ''Upload failed''])
      | (Inr s, es) \<Rightarrow> (Inr s, es @ [Toast ''Upload successful'']))"

text \<open>The number of signed upload URLs that the server has issued along a trace.\<close>

fun issuesUrl :: "event \<Rightarrow> bool" where
  "issuesUrl (UploadUrl ok) = ok"
| "issuesUrl (PartUrl p ok) = ok"
| "issuesUrl (DirectConfig ok) = ok"
| "issuesUrl e = False"

definition issuedUploadUrls :: "event list \<Rightarrow> nat" where
  "issuedUploadUrls es = length (filter issuesUrl es)"

text \<open>
  The events of a part upload, and what it takes for attempt \<open>a\<close> at part \<open>p\<close> to
  deliver the part: the URL, the PUT and a non-empty ETag.
\<close>

fun partEvent :: "event \<Rightarrow> bool" where
  "partEvent (PartUrl p ok) = True"
| "partEvent (PartPut p s e ok) = True"
| "partEvent (Sleep ms) = True"
| "partEvent e = False"

definition partDelivered :: "net \<Rightarrow> nat \<Rightarrow> nat \<Rightarrow> bool" where
  "partDelivered nw p a \<longleftrightarrow>
     partUrlOk nw p a \<and> partPutOk nw p a
       \<and> (case partETag nw p a of None \<Rightarrow> False | Some etag \<Rightarrow> etag \<noteq> [])"

text \<open>
  What attempt \<open>a\<close> at part \<open>p\<close> records when it delivers the part: the ETag without
  its quotes.
\<close>

definition recordedAt :: "net \<Rightarrow> nat \<Rightarrow> nat \<Rightarrow> string \<Rightarrow> bool" where
  "recordedAt nw p a t \<longleftrightarrow>
     partDelivered nw p a
       \<and> map_option (filter (\<lambda>c. c \<noteq> CHR 0x22)) (partETag nw p a) = Some t"

text \<open>An entry of the \<^verbatim>\<open>parts\<close> array that some attempt within the limit has recorded.\<close>

definition recorded :: "net \<Rightarrow> nat \<times> string \<Rightarrow> bool" where
  "recorded nw pt \<longleftrightarrow>
     list_ex (\<lambda>a. recordedAt nw (fst pt) a (snd pt)) [0 ..< MAX_RETRIES + 1]"

text \<open>
  The requests for part \<open>p\<close> when its first attempt delivers it, and what is then
  recorded for it.
\<close>

definition partSteps :: "browserFile \<Rightarrow> nat \<Rightarrow> event list" where
  "partSteps f p =
     [PartUrl p True,
      PartPut p ((p - 1) * partSizeFor (file_size f))
        (min ((p - 1) * partSizeFor (file_size f) + partSizeFor (file_size f)) (file_size f))
        True]"

definition firstToken :: "net \<Rightarrow> nat \<Rightarrow> string" where
  "firstToken nw p =
     (case partETag nw p 0 of None \<Rightarrow> [] | Some etag \<Rightarrow> filter (\<lambda>c. c \<noteq> CHR 0x22) etag)"

text \<open>
  The remote store is available to the upload of \<open>f\<close>: every request that concerns it
  succeeds, each part at its first attempt.
\<close>

definition storeAvailable :: "net \<Rightarrow> browserFile \<Rightarrow> bool" where
  "storeAvailable nw f \<longleftrightarrow>
     configOk nw \<and> configHasPost nw \<and> postOk nw \<and> directRegisterOk nw
       \<and> uploadUrlReply nw = UrlGranted \<and> putOk nw \<and> registerOk nw
       \<and> initReply nw = InitGranted
       \<and> list_all (\<lambda>p. partDelivered nw p 0) [1 ..< numPartsFor (file_size f) + 1]
       \<and> completeOk nw"

text \<open>The events that the server-assisted upload can produce.\<close>

fun assistedEvent :: "event \<Rightarrow> bool" where
  "assistedEvent (DirectConfig ok) = False"
| "assistedEvent (DirectPost ok) = False"
| "assistedEvent (DirectRegister ok) = False"
| "assistedEvent (Relay ok) = False"
| "assistedEvent (Toast m) = (m = ''Upload Error'')"
| "assistedEvent e = True"

text \<open>A network on which every request succeeds.\<close>

definition healthyNet :: net where
  "healthyNet =
     \<lparr>configOk = True, configHasPost = True, postOk = True, directRegisterOk = True,
      uploadUrlReply = UrlGranted, putOk = True, registerOk = True, initReply = InitGranted,
      partUrlOk = (\<lambda>p a. True), partPutOk = (\<lambda>p a. True),
      partETag = (\<lambda>p a. Some ''etag''), completeOk = True, relayReply = RelayStored\<rparr>"

definition videoOfSize :: "nat \<Rightarrow> browserFile" where
  "videoOfSize n = \<lparr>file_name = ''clip.mp4'', file_type = ''video/mp4'', file_size = n\<rparr>"


section \<open>Signed URLs in a response\<close>

fun ttlOf :: "url \<Rightarrow> nat option" where
  "ttlOf (Signed oper key expiresIn) = Some expiresIn"
| "ttlOf (Plain u) = None"
| "ttlOf (ObjectUrl k) = None"

fun urlOf :: "string \<times> jv \<Rightarrow> url option" where
  "urlOf (k, U u) = Some u"
| "urlOf (k, S v) = None"
| "urlOf (k, B v) = None"
| "urlOf (k, N v) = None"
| "urlOf (k, Fields v) = None"

definition signedUrls :: "response \<Rightarrow> url list" where
  "signedUrls r =
     (case location r of None \<Rightarrow> [] | Some u \<Rightarrow> [u])
     @ (case body r of Json kvs \<Rightarrow> List.map_filter urlOf kvs | _ \<Rightarrow> [])"

definition ttls :: "response \<Rightarrow> nat list" where
  "ttls r = List.map_filter ttlOf (signedUrls r)"


text \<open>
  The reference that a relayed upload records for a file written locally as \<open>filename\<close>:
  the remote key when the remote write is attempted and succeeds, else the local name.
\<close>

definition storedPath :: "bool \<Rightarrow> world \<Rightarrow> string \<Rightarrow> string" where
  "storedPath use_s3 w filename =
     (if use_s3 \<and> s3PutOk w (''uploads/'' @ filename) then ''uploads/'' @ filename else filename)"

text \<open>An environment in which credentials, region and bucket are all set.\<close>

definition configuredEnv :: env where
  "configuredEnv =
     \<lparr>AWS_ACCESS_KEY_ID = Some ''AKIAEXAMPLE'', AWS_SECRET_ACCESS_KEY = Some ''secret'',
      AWS_REGION = Some ''us-east-1'', AWS_S3_BUCKET = Some ''chattertv'',
      REPLIT_DEPLOYMENT = None\<rparr>"

text \<open>A registration request and an upload form with only the required fields.\<close>

definition registrationOf :: "string \<Rightarrow> string \<Rightarrow> registration" where
  "registrationOf key t =
     \<lparr>regKey = Some key, regTitle = Some t, regDescription = None, regDuration = None,
      regCategory = None, regTags = None, regIsFeatured = False, regIsContest = False,
      regIsAI = False\<rparr>"

definition formOf :: "string \<Rightarrow> nat list \<Rightarrow> string \<Rightarrow> uploadForm" where
  "formOf name bytes t =
     \<lparr>formFile = Some \<lparr>originalname = name, mimetype = ''video/mp4'', fileBytes = bytes\<rparr>,
      formTitle = Some t, formDescription = None, formDuration = None, formCategory = None,
      formTags = None, formIsFeatured = None, formIsContest = None, formIsAI = None\<rparr>"

text \<open>A server that holds the given files in its upload directory and nothing else.\<close>

definition localOnly :: "(string \<times> nat list) list \<Rightarrow> world" where
  "localOnly files =
     \<lparr>uploadDir = map_of files, thumbnailDir = Map.empty, s3Has = (\<lambda>k. False),
      s3Body = (\<lambda>k. []), s3Origin = [], signerOk = False, canWrite = False, s3PutOk = (\<lambda>k. False), s3ApiOk = False,
      newUploadId = [], ffmpegFrame = None, dbOk = True, videos = [], finalized = [],
      uuid = (\<lambda>n. ''id'' @ showNat n), production = False, MAX_FILE_SIZE = 524288000\<rparr>"


text \<open>A server with an empty upload directory whose remote store holds the given keys.\<close>

definition remoteOnly :: "string list \<Rightarrow> world" where
  "remoteOnly ks =
     \<lparr>uploadDir = Map.empty, thumbnailDir = Map.empty, s3Has = (\<lambda>k. k \<in> set ks),
      s3Body = (\<lambda>k. [1, 2, 3]), s3Origin = ''https://bucket.s3.region.amazonaws.com'',
      signerOk = True, canWrite = False, s3PutOk = (\<lambda>k. True), s3ApiOk = True,
      newUploadId = ''upload-1'', ffmpegFrame = None, dbOk = True, videos = [], finalized = [],
      uuid = (\<lambda>n. ''id'' @ showNat n), production = False, MAX_FILE_SIZE = 524288000\<rparr>"


section \<open>Properties\<close>

subsection \<open>Decimal round trip\<close>

lemma of_char_digitChar: "d < 10 \<Longrightarrow> (of_char (digitChar d) :: nat) = 48 + d"
  by (simp add: digitChar_def)

lemma isDigit_digitChar: "d < 10 \<Longrightarrow> isDigit (digitChar d)"
  by (simp add: isDigit_def of_char_digitChar)

lemma digitVal_digitChar: "d < 10 \<Longrightarrow> digitVal (digitChar d) = int d"
  by (simp add: digitVal_def of_char_digitChar)

lemma showNat_digits: "\<forall>c \<in> set (showNat n). isDigit c"
proof (induction n rule: showNat.induct)
  case (1 n)
  show ?case
  proof (cases "n < 10")
    case True
    then show ?thesis by (simp add: showNat.simps [of n] isDigit_digitChar)
  next
    case False
    with 1 show ?thesis by (simp add: showNat.simps [of n] isDigit_digitChar)
  qed
qed

lemma showNat_nonempty: "showNat n \<noteq> []"
  by (subst showNat.simps) simp

lemma digitsValue_snoc: "digitsValue acc (xs @ [c]) = digitsValue acc xs * 10 + digitVal c"
  by (induction xs arbitrary: acc) simp_all

lemma digitsValue_showNat: "digitsValue 0 (showNat n) = int n"
proof (induction n rule: showNat.induct)
  case (1 n)
  show ?case
  proof (cases "n < 10")
    case True
    then show ?thesis by (simp add: showNat.simps [of n] digitVal_digitChar)
  next
    case False
    with 1 have "digitsValue 0 (showNat (n div 10)) = int (n div 10)" by simp
    with False show ?thesis
      by (simp add: showNat.simps [of n] digitsValue_snoc digitVal_digitChar zdiv_int zmod_int)
  qed
qed

lemma isDigit_not_ws: "isDigit c \<Longrightarrow> \<not> isStrWhiteSpaceChar c"
  by (auto simp: isDigit_def isStrWhiteSpaceChar_def)

lemma isDigit_not_sign: "isDigit c \<Longrightarrow> c \<noteq> CHR ''-'' \<and> c \<noteq> CHR ''+''"
  by (auto simp: isDigit_def)

lemma parseInt_showNat: "parseInt (showNat n) = Some (int n)"
proof -
  obtain c cs where sn: "showNat n = c # cs"
    using showNat_nonempty [of n] by (cases "showNat n") auto
  have all: "\<forall>x \<in> set (c # cs). isDigit x" using showNat_digits [of n] sn by simp
  then have d: "isDigit c" by simp
  have dw: "dropWhile isStrWhiteSpaceChar (c # cs) = c # cs"
    using isDigit_not_ws [OF d] by simp
  have tw: "takeWhile isDigit (c # cs) = c # cs"
    using all by (simp only: takeWhile_eq_all_conv)
  show ?thesis
    using isDigit_not_sign [OF d] digitsValue_showNat [of n]
    unfolding parseInt_def sn dw Let_def
    by (simp add: tw del: takeWhile.simps digitsValue.simps)
qed

lemma splitOn_no_sep: "d \<notin> set xs \<Longrightarrow> splitOn d (xs @ [d]) = [xs, []]"
  by (induction xs) auto

lemma splitOn_showNat_dash: "splitOn (CHR ''-'') (showNat n @ ''-'') = [showNat n, []]"
proof -
  have "CHR ''-'' \<notin> set (showNat n)"
    using showNat_digits [of n] isDigit_not_sign by blast
  then show ?thesis by (rule splitOn_no_sep)
qed

lemma rangeParts_open: "rangeParts (''bytes='' @ showNat s @ ''-'') = [showNat s, []]"
  by (simp add: rangeParts_def splitOn_showNat_dash)

lemma rangeStart_open: "rangeStart (''bytes='' @ showNat s @ ''-'') = Some (int s)"
  unfolding rangeStart_def rangeParts_open by (simp add: parseInt_showNat)

lemma rangeEnd_open: "rangeEnd n (''bytes='' @ showNat s @ ''-'') = Some (int n - 1)"
  unfolding rangeEnd_def rangeParts_open by simp

subsection \<open>Range requests on a local file\<close>

lemma rangeStart_100_199: "rangeStart ''bytes=100-199'' = Some 100"
  by code_simp

lemma rangeEnd_100_199: "rangeEnd n ''bytes=100-199'' = Some 199"
  by (simp add: rangeEnd_def rangeParts_def parseInt_def isDigit_def isStrWhiteSpaceChar_def
      digitVal_def)

lemma showNat_examples:
  "showNat 1000 = ''1000''" "showNat 100 = ''100''" "showNat 199 = ''199''"
  by code_simp+

lemma stream_100_199:
  "length content = 1000 \<Longrightarrow>
   streamLocalVideoFile content (Some ''bytes=100-199'') =
     Inr (respond 206
            [(''Content-Range'', ''bytes 100-199/1000''), (''Accept-Ranges'', ''bytes''),
             (''Content-Length'', ''100''), (''Content-Type'', ''video/mp4'')]
            (Bytes (take 100 (drop 100 content))))"
  by (simp add: streamLocalVideoFile_def rangeStart_100_199 rangeEnd_100_199 createReadStream_def
      checkPosition_def showNum_def jsAdd_def jsSub_def showNat_examples)

lemma stream_no_range:
  "streamLocalVideoFile content None =
     Inr (respond 200
            [(''Content-Length'', showNat (length content)), (''Content-Type'', ''video/mp4'')]
            (Bytes content))"
  by (simp add: streamLocalVideoFile_def)

lemma stream_open_ended:
  assumes "s < length content" and "length content \<le> 2 ^ 53"
  shows "streamLocalVideoFile content (Some (''bytes='' @ showNat s @ ''-'')) =
    Inr (respond 206
           [(''Content-Range'',
               ''bytes '' @ showNat s @ ''-'' @ showNat (length content - 1) @ ''/''
                 @ showNat (length content)),
            (''Accept-Ranges'', ''bytes''),
            (''Content-Length'', showNat (length content - s)),
            (''Content-Type'', ''video/mp4'')]
           (Bytes (drop s content)))"
proof -
  define r where "r = ''bytes='' @ showNat s @ ''-''"
  have rs: "rangeStart r = Some (int s)" unfolding r_def by (rule rangeStart_open)
  have re: "rangeEnd (length content) r = Some (int (length content) - 1)"
    unfolding r_def by (rule rangeEnd_open)
  have ne: "r \<noteq> []" unfolding r_def by simp
  have a: "nat (int (length content) - 1) = length content - 1" by simp
  have b: "nat (int (length content) - 1 - int s + 1) = length content - s" using assms by simp
  have c: "int (length content) - 1 - int s + 1 = int (length content - s)" using assms by simp
  have d: "nat (int (length content) - int s) = length content - s" using assms by simp
  have e: "content \<noteq> []" using assms by auto
  have "streamLocalVideoFile content (Some r) =
    Inr (respond 206
           [(''Content-Range'',
               ''bytes '' @ showNat s @ ''-'' @ showNat (length content - 1) @ ''/''
                 @ showNat (length content)),
            (''Accept-Ranges'', ''bytes''),
            (''Content-Length'', showNat (length content - s)),
            (''Content-Type'', ''video/mp4'')]
           (Bytes (drop s content)))"
    using assms ne
    by (simp add: streamLocalVideoFile_def rs re createReadStream_def checkPosition_def showNum_def
        jsAdd_def jsSub_def Let_def a b c d e)
  then show ?thesis unfolding r_def .
qed

lemma videos_local:
  "uploadDir w filename = Some content \<Longrightarrow>
   videosHandler use_s3 w filename rangeHeader =
     (case streamLocalVideoFile content rangeHeader of
        Inr r \<Rightarrow> r
      | Inl err \<Rightarrow> sendText 500 ''Error processing video request'')"
  by (simp add: videosHandler_def)

text \<open>
  C7.  A stored local object of 1000 bytes asked for with \<^verbatim>\<open>Range: bytes=100-199\<close> is
  answered with status 206, the 100 bytes at offsets 100 to 199, \<^verbatim>\<open>Content-Range: bytes
  100-199/1000\<close> and \<^verbatim>\<open>Content-Length: 100\<close>.  Without a \<^verbatim>\<open>Range\<close> header the answer is
  200 with the whole file and its length.  An open-ended range \<^verbatim>\<open>bytes=s-\<close> inside the
  file is served from offset \<open>s\<close> to the last byte.
\<close>

theorem C7_range_delivery:
  assumes "uploadDir w filename = Some content"
  shows "(length content = 1000 \<longrightarrow>
            videosHandler use_s3 w filename (Some ''bytes=100-199'') =
              respond 206
                [(''Content-Range'', ''bytes 100-199/1000''), (''Accept-Ranges'', ''bytes''),
                 (''Content-Length'', ''100''), (''Content-Type'', ''video/mp4'')]
                (Bytes (take 100 (drop 100 content)))
            \<and> length (take 100 (drop 100 content)) = 100)
       \<and> videosHandler use_s3 w filename None =
           respond 200
             [(''Content-Length'', showNat (length content)), (''Content-Type'', ''video/mp4'')]
             (Bytes content)
       \<and> (s < length content \<and> length content \<le> 2 ^ 53 \<longrightarrow>
           videosHandler use_s3 w filename (Some (''bytes='' @ showNat s @ ''-'')) =
             respond 206
               [(''Content-Range'',
                   ''bytes '' @ showNat s @ ''-'' @ showNat (length content - 1) @ ''/''
                     @ showNat (length content)),
                (''Accept-Ranges'', ''bytes''),
                (''Content-Length'', showNat (length content - s)),
                (''Content-Type'', ''video/mp4'')]
               (Bytes (drop s content)))"
proof (intro conjI impI)
  assume "length content = 1000"
  then show "videosHandler use_s3 w filename (Some ''bytes=100-199'') =
              respond 206
                [(''Content-Range'', ''bytes 100-199/1000''), (''Accept-Ranges'', ''bytes''),
                 (''Content-Length'', ''100''), (''Content-Type'', ''video/mp4'')]
                (Bytes (take 100 (drop 100 content)))"
    by (simp only: videos_local [OF assms] stream_100_199 sum.case)
next
  assume "length content = 1000"
  then show "length (take 100 (drop 100 content)) = 100" by simp
next
  show "videosHandler use_s3 w filename None =
           respond 200
             [(''Content-Length'', showNat (length content)), (''Content-Type'', ''video/mp4'')]
             (Bytes content)"
    by (simp only: videos_local [OF assms] stream_no_range sum.case)
next
  assume "s < length content \<and> length content \<le> 2 ^ 53"
  then have "s < length content" and "length content \<le> 2 ^ 53" by simp_all
  then show "videosHandler use_s3 w filename (Some (''bytes='' @ showNat s @ ''-'')) =
             respond 206
               [(''Content-Range'',
                   ''bytes '' @ showNat s @ ''-'' @ showNat (length content - 1) @ ''/''
                     @ showNat (length content)),
                (''Accept-Ranges'', ''bytes''),
                (''Content-Length'', showNat (length content - s)),
                (''Content-Type'', ''video/mp4'')]
               (Bytes (drop s content))"
    by (simp only: videos_local [OF assms] stream_open_ended sum.case)
qed

theorem C7_range_delivery_witness:
  "videosHandler False (localOnly [(''v.mp4'', replicate 1000 7)]) ''v.mp4'' (Some ''bytes=100-199'') =
     respond 206
       [(''Content-Range'', ''bytes 100-199/1000''), (''Accept-Ranges'', ''bytes''),
        (''Content-Length'', ''100''), (''Content-Type'', ''video/mp4'')]
       (Bytes (replicate 100 7))
   \<and> videosHandler False (localOnly [(''v.mp4'', replicate 1000 7)]) ''v.mp4'' None =
     respond 200 [(''Content-Length'', ''1000''), (''Content-Type'', ''video/mp4'')]
       (Bytes (replicate 1000 7))
   \<and> videosHandler False (localOnly [(''v.mp4'', replicate 1000 7)]) ''v.mp4'' (Some ''bytes=900-'') =
     respond 206
       [(''Content-Range'', ''bytes 900-999/1000''), (''Accept-Ranges'', ''bytes''),
        (''Content-Length'', ''100''), (''Content-Type'', ''video/mp4'')]
       (Bytes (replicate 100 7))"
proof -
  have u: "uploadDir (localOnly [(''v.mp4'', replicate 1000 7)]) ''v.mp4'' = Some (replicate 1000 7)"
    by (simp add: localOnly_def)
  have n: "showNat 900 = ''900''" "showNat 999 = ''999''" "showNat 1000 = ''1000''"
    "showNat 100 = ''100''"
    by code_simp+
  show ?thesis
    using C7_range_delivery [OF u, of False 900] by (simp add: n)
qed

subsection \<open>Unvalidated ranges\<close>



lemma stream_ranged:
  assumes "r \<noteq> []"
  shows "streamLocalVideoFile content (Some r) =
     (case (rangeStart r, rangeEnd (length content) r) of
        (Some s, Some e) \<Rightarrow>
          if 0 \<le> s \<and> s \<le> e \<and> e \<le> 2 ^ 53 - 1 then
            Inr (respond 206
              [(''Content-Range'',
                  ''bytes '' @ showNat (nat s) @ ''-'' @ showNat (nat e) @ ''/''
                    @ showNat (length content)),
               (''Accept-Ranges'', ''bytes''),
               (''Content-Length'', showNat (nat (e - s + 1))),
               (''Content-Type'', ''video/mp4'')]
              (Bytes (take (nat (e - s + 1)) (drop (nat s) content))))
          else Inl ERR_OUT_OF_RANGE
      | _ \<Rightarrow> Inl ERR_OUT_OF_RANGE)"
  using assms
  by (auto simp: streamLocalVideoFile_def createReadStream_def checkPosition_def showNum_def
      jsAdd_def jsSub_def Let_def split: option.splits)





subsection \<open>Resolution order\<close>

lemma normalize_uploads: "normalizeS3Key (''uploads/'' @ f) = ''uploads/'' @ f"
  by (simp add: normalizeS3Key_def)

lemma normalize_thumb: "normalizeS3Key (thumbKey t) = thumbKey t"
  apply (simp add: normalizeS3Key_def thumbKey_def)
  apply (cases t)
  apply auto
  done

lemma videos_not_local:
  "uploadDir w f = None \<Longrightarrow>
   videosHandler use_s3 w f rh =
     (if use_s3 \<and> s3Has w (''uploads/'' @ f) \<and> signerOk w
      then redirect (Signed GetObject (''uploads/'' @ f) 3600)
      else sendText 404 ''Video not found'')"
  unfolding videosHandler_def fileExistsInS3_def getPresignedUrl_def Let_def normalize_uploads
  by auto

lemma videos_resolution:
  "videosHandler use_s3 w f rh =
     (case uploadDir w f of
        Some content \<Rightarrow>
          (case streamLocalVideoFile content rh of
             Inr r \<Rightarrow> r
           | Inl err \<Rightarrow> sendText 500 ''Error processing video request'')
      | None \<Rightarrow>
          if use_s3 \<and> s3Has w (''uploads/'' @ f) \<and> signerOk w
          then redirect (Signed GetObject (''uploads/'' @ f) 3600)
          else sendText 404 ''Video not found'')"
proof (cases "uploadDir w f")
  case None
  show ?thesis unfolding None option.case by (rule videos_not_local [OF None])
next
  case (Some content)
  show ?thesis unfolding Some option.case by (rule videos_local [OF Some])
qed

lemma stream_response:
  "streamLocalVideoFile content rh = Inr r \<Longrightarrow>
   (status r = 200 \<or> status r = 206) \<and> location r = None
   \<and> (\<exists>a b. body r = Bytes (take a (drop b content)))"
proof (cases "rh = None \<or> rh = Some []")
  case True
  assume "streamLocalVideoFile content rh = Inr r"
  with True have "body r = Bytes content \<and> status r = 200 \<and> location r = None"
    by (auto simp: streamLocalVideoFile_def respond_def)
  then have "body r = Bytes (take (length content) (drop 0 content)) \<and> status r = 200 \<and> location r = None"
    by simp
  then show ?thesis by blast
next
  case False
  assume a: "streamLocalVideoFile content rh = Inr r"
  from False obtain x where x: "rh = Some x" "x \<noteq> []" by (cases rh) auto
  show ?thesis
    using a unfolding x(1) stream_ranged [OF x(2)]
    by (auto simp: respond_def split: option.splits if_splits) blast
qed

lemma videos_payload:
  "(case body (videosHandler use_s3 w f rh) of
      Bytes bs \<Rightarrow>
        (\<exists>content a b. uploadDir w f = Some content \<and> bs = take a (drop b content))
        \<and> (status (videosHandler use_s3 w f rh) = 200 \<or> status (videosHandler use_s3 w f rh) = 206)
        \<and> location (videosHandler use_s3 w f rh) = None
    | NoBody \<Rightarrow>
        videosHandler use_s3 w f rh = redirect (Signed GetObject (''uploads/'' @ f) 3600)
        \<and> uploadDir w f = None \<and> use_s3 \<and> s3Has w (''uploads/'' @ f)
    | Text m \<Rightarrow>
        (videosHandler use_s3 w f rh = sendText 404 ''Video not found'' \<and> uploadDir w f = None)
        \<or> (videosHandler use_s3 w f rh = sendText 500 ''Error processing video request''
            \<and> uploadDir w f \<noteq> None)
    | _ \<Rightarrow> False)"
proof (cases "uploadDir w f")
  case None
  show ?thesis
    unfolding videos_not_local [OF None]
    using None by (simp add: sendText_def respond_def redirect_def)
next
  case (Some content)
  show ?thesis
  proof (cases "streamLocalVideoFile content rh")
    case (Inl e)
    then show ?thesis using Some by (simp add: videos_local [OF Some] sendText_def respond_def)
  next
    case (Inr r)
    from stream_response [OF Inr] obtain a b where
      "body r = Bytes (take a (drop b content))" "status r = 200 \<or> status r = 206" "location r = None"
      by blast
    then show ?thesis using Some by (auto simp add: videos_local [OF Some] Inr)
  qed
qed

lemma thumbnail_fallback:
  assumes "thumbnailDir w t = None" and "\<not> (use_s3 \<and> s3Has w (thumbKey t) \<and> signerOk w)"
  shows "fst (thumbnailsApiHandler use_s3 w t) =
     (case thumbnailDir w ''default-thumbnail.jpg'' of
        Some img \<Rightarrow> sendFile img
      | None \<Rightarrow>
          if t = ''default-thumbnail.jpg'' then
            (if canWrite w then sendFile DefaultThumbnailPng
             else svgResponse [''ChatterTV'', ''Recovered Video''])
          else svgResponse [''ChatterTV''])"
proof -
  have k: "fileExistsInS3 use_s3 w (thumbKey t) = (use_s3 \<and> s3Has w (thumbKey t))"
    by (simp add: fileExistsInS3_def normalize_thumb)
  show ?thesis
    using assms unfolding thumbnailsApiHandler_def Let_def k getPresignedUrl_def
    by (auto split: option.splits)
qed

text \<open>
  C8 (as amended).  A video request is served from the local file when it exists.
  Otherwise, when the remote store is enabled, holds the object and a download URL can be
  signed, the requester is redirected to that URL, which is valid for one hour.  In every
  other case without a local file (the store disabled, the object absent from it, or the
  signer failing) the answer is 404 \<^verbatim>\<open>Video not found\<close>.  A video response is never a
  placeholder or other content: it is a slice of the stored local file with status 200 or
  206, that redirect, that 404, or the 500 error text when the local file cannot be
  streamed.  A thumbnail that neither backend delivers is answered with the default
  thumbnail or an SVG placeholder.
\<close>

theorem C8_delivery_resolution:
  "videosHandler use_s3 w f rh =
     (case uploadDir w f of
        Some content \<Rightarrow>
          (case streamLocalVideoFile content rh of
             Inr r \<Rightarrow> r
           | Inl err \<Rightarrow> sendText 500 ''Error processing video request'')
      | None \<Rightarrow>
          if use_s3 \<and> s3Has w (''uploads/'' @ f) \<and> signerOk w
          then redirect (Signed GetObject (''uploads/'' @ f) 3600)
          else sendText 404 ''Video not found'')
   \<and> (\<forall>content. uploadDir w f = Some content \<longrightarrow>
         videosHandler use_s3 w f None =
           respond 200
             [(''Content-Length'', showNat (length content)), (''Content-Type'', ''video/mp4'')]
             (Bytes content))
   \<and> (case body (videosHandler use_s3 w f rh) of
          Bytes bs \<Rightarrow>
            (\<exists>content a b. uploadDir w f = Some content \<and> bs = take a (drop b content))
            \<and> (status (videosHandler use_s3 w f rh) = 200
                 \<or> status (videosHandler use_s3 w f rh) = 206)
            \<and> location (videosHandler use_s3 w f rh) = None
        | NoBody \<Rightarrow>
            videosHandler use_s3 w f rh = redirect (Signed GetObject (''uploads/'' @ f) 3600)
            \<and> uploadDir w f = None \<and> use_s3 \<and> s3Has w (''uploads/'' @ f)
        | Text m \<Rightarrow>
            (videosHandler use_s3 w f rh = sendText 404 ''Video not found''
               \<and> uploadDir w f = None)
            \<or> (videosHandler use_s3 w f rh = sendText 500 ''Error processing video request''
                 \<and> uploadDir w f \<noteq> None)
        | _ \<Rightarrow> False)
   \<and> (thumbnailDir w t = None \<and> \<not> (use_s3 \<and> s3Has w (thumbKey t) \<and> signerOk w) \<longrightarrow>
        fst (thumbnailsApiHandler use_s3 w t) =
          (case thumbnailDir w ''default-thumbnail.jpg'' of
             Some img \<Rightarrow> sendFile img
           | None \<Rightarrow>
               if t = ''default-thumbnail.jpg'' then
                 (if canWrite w then sendFile DefaultThumbnailPng
                  else svgResponse [''ChatterTV'', ''Recovered Video''])
               else svgResponse [''ChatterTV'']))"
proof (intro conjI allI impI)
  show "videosHandler use_s3 w f rh =
     (case uploadDir w f of
        Some content \<Rightarrow>
          (case streamLocalVideoFile content rh of
             Inr r \<Rightarrow> r
           | Inl err \<Rightarrow> sendText 500 ''Error processing video request'')
      | None \<Rightarrow>
          if use_s3 \<and> s3Has w (''uploads/'' @ f) \<and> signerOk w
          then redirect (Signed GetObject (''uploads/'' @ f) 3600)
          else sendText 404 ''Video not found'')"
    by (rule videos_resolution)
next
  fix content
  assume a: "uploadDir w f = Some content"
  show "videosHandler use_s3 w f None =
           respond 200
             [(''Content-Length'', showNat (length content)), (''Content-Type'', ''video/mp4'')]
             (Bytes content)"
    by (simp only: videos_local [OF a] stream_no_range sum.case)
next
  show "case body (videosHandler use_s3 w f rh) of
          Bytes bs \<Rightarrow>
            (\<exists>content a b. uploadDir w f = Some content \<and> bs = take a (drop b content))
            \<and> (status (videosHandler use_s3 w f rh) = 200
                 \<or> status (videosHandler use_s3 w f rh) = 206)
            \<and> location (videosHandler use_s3 w f rh) = None
        | NoBody \<Rightarrow>
            videosHandler use_s3 w f rh = redirect (Signed GetObject (''uploads/'' @ f) 3600)
            \<and> uploadDir w f = None \<and> use_s3 \<and> s3Has w (''uploads/'' @ f)
        | Text m \<Rightarrow>
            (videosHandler use_s3 w f rh = sendText 404 ''Video not found''
               \<and> uploadDir w f = None)
            \<or> (videosHandler use_s3 w f rh = sendText 500 ''Error processing video request''
                 \<and> uploadDir w f \<noteq> None)
        | _ \<Rightarrow> False"
    by (rule videos_payload)
next
  assume "thumbnailDir w t = None \<and> \<not> (use_s3 \<and> s3Has w (thumbKey t) \<and> signerOk w)"
  then show "fst (thumbnailsApiHandler use_s3 w t) =
          (case thumbnailDir w ''default-thumbnail.jpg'' of
             Some img \<Rightarrow> sendFile img
           | None \<Rightarrow>
               if t = ''default-thumbnail.jpg'' then
                 (if canWrite w then sendFile DefaultThumbnailPng
                  else svgResponse [''ChatterTV'', ''Recovered Video''])
               else svgResponse [''ChatterTV''])"
    using thumbnail_fallback by blast
qed

theorem C8_delivery_resolution_witness:
  "videosHandler True (localOnly [(''v.mp4'', [7, 8, 9])]) ''v.mp4'' None =
     respond 200 [(''Content-Length'', ''3''), (''Content-Type'', ''video/mp4'')] (Bytes [7, 8, 9])
   \<and> videosHandler True (remoteOnly [''uploads/v.mp4'']) ''v.mp4'' None =
       redirect (Signed GetObject ''uploads/v.mp4'' 3600)
   \<and> videosHandler True (remoteOnly []) ''v.mp4'' None = sendText 404 ''Video not found''
   \<and> videosHandler True ((remoteOnly [''uploads/v.mp4'']) \<lparr>signerOk := False\<rparr>) ''v.mp4'' None =
       sendText 404 ''Video not found''
   \<and> videosHandler False (remoteOnly [''uploads/v.mp4'']) ''v.mp4'' None =
       sendText 404 ''Video not found''
   \<and> fst (thumbnailsApiHandler True (remoteOnly []) ''t.jpg'') = svgResponse [''ChatterTV'']
   \<and> fst (thumbnailsApiHandler True ((remoteOnly [''thumbnails/t.jpg'']) \<lparr>signerOk := False\<rparr>)
            ''t.jpg'') = svgResponse [''ChatterTV'']"
proof -
  have n: "showNat (Suc (Suc (Suc 0))) = ''3''" by code_simp
  have k: "thumbKey ''t.jpg'' = ''thumbnails/t.jpg''" by (simp add: thumbKey_def)
  show ?thesis
    using C8_delivery_resolution [of True "localOnly [(''v.mp4'', [7, 8, 9])]" "''v.mp4''" None "''t.jpg''"]
      C8_delivery_resolution [of True "remoteOnly [''uploads/v.mp4'']" "''v.mp4''" None "''t.jpg''"]
      C8_delivery_resolution [of True "remoteOnly []" "''v.mp4''" None "''t.jpg''"]
      C8_delivery_resolution [of True "(remoteOnly [''uploads/v.mp4'']) \<lparr>signerOk := False\<rparr>" "''v.mp4''" None "''t.jpg''"]
      C8_delivery_resolution [of False "remoteOnly [''uploads/v.mp4'']" "''v.mp4''" None "''t.jpg''"]
      C8_delivery_resolution [of True "(remoteOnly [''thumbnails/t.jpg'']) \<lparr>signerOk := False\<rparr>" "''v.mp4''" None "''t.jpg''"]
    by (simp add: localOnly_def remoteOnly_def n k stream_no_range)
qed

text \<open>
  C8 as stated fails where the store is enabled and holds the object but the signer
  throws: the handler logs the error and answers 404, not a redirect.
\<close>

theorem C8_counterexample:
  "uploadDir ((remoteOnly [''uploads/v.mp4'']) \<lparr>signerOk := False\<rparr>) ''v.mp4'' = None
   \<and> fileExistsInS3 True ((remoteOnly [''uploads/v.mp4'']) \<lparr>signerOk := False\<rparr>) ''uploads/v.mp4''
   \<and> videosHandler True ((remoteOnly [''uploads/v.mp4'']) \<lparr>signerOk := False\<rparr>) ''v.mp4'' None
       = sendText 404 ''Video not found''
   \<and> status (videosHandler True ((remoteOnly [''uploads/v.mp4'']) \<lparr>signerOk := False\<rparr>) ''v.mp4'' None)
       = 404
   \<and> location (videosHandler True ((remoteOnly [''uploads/v.mp4'']) \<lparr>signerOk := False\<rparr>) ''v.mp4'' None)
       = None"
  by (simp add: videosHandler_def remoteOnly_def fileExistsInS3_def getPresignedUrl_def
      normalizeS3Key_def sendText_def respond_def Let_def)


subsection \<open>Lifetimes of signed URLs\<close>

lemma ttls_simps:
  "ttls (json c kvs) = List.map_filter ttlOf (List.map_filter urlOf kvs)"
  "ttls (sendText c m) = []"
  "ttls (redirect u) = List.map_filter ttlOf [u]"
  "ttls (respond c hs b) = List.map_filter ttlOf (case b of Json kvs \<Rightarrow> List.map_filter urlOf kvs | _ \<Rightarrow> [])"
  by (simp_all add: ttls_def signedUrls_def json_def sendText_def redirect_def respond_def)

lemma ttls_uploadUrl: "t \<in> set (ttls (uploadUrlHandler use_s3 w ft fn)) \<Longrightarrow> t = 3600"
  by (auto simp: uploadUrlHandler_def ttls_simps s3NotConfigured_def missingParameters_def
      generatePresignedUploadUrl_def Let_def List.map_filter_simps split: if_splits option.splits)

lemma ttls_partUrl: "t \<in> set (ttls (partUrlHandler use_s3 w k u p)) \<Longrightarrow> t = 10800"
  by (auto simp: partUrlHandler_def ttls_simps s3NotConfigured_def missingParameters_def
      getMultipartPresignedUrl_def Let_def List.map_filter_simps split: if_splits option.splits)

lemma ttls_videos: "t \<in> set (ttls (videosHandler use_s3 w f rh)) \<Longrightarrow> t = 3600"
  by (auto simp: videosHandler_def ttls_simps getPresignedUrl_def streamLocalVideoFile_def Let_def List.map_filter_simps
      split: if_splits option.splits sum.splits)

lemma ttls_thumbs: "t \<in> set (ttls (fst (thumbnailsApiHandler use_s3 w f))) \<Longrightarrow> t = 604800"
  by (auto simp: thumbnailsApiHandler_def ttls_simps getPresignedUrl_def sendFile_def svgResponse_def Let_def List.map_filter_simps
      split: if_splits option.splits)

lemma set_map_filter_iff: "y \<in> set (List.map_filter g xs) \<longleftrightarrow> (\<exists>x \<in> set xs. g x = Some y)"
  by (induction xs) (auto split: option.splits)

lemma mem_ttls:
  "t \<in> set (ttls (json c kvs)) \<longleftrightarrow> (\<exists>k oper key. (k, U (Signed oper key t)) \<in> set kvs)"
proof -
  have a: "\<And>x u. urlOf x = Some u \<longleftrightarrow> (\<exists>k. x = (k, U u))"
  proof -
    fix x :: "string \<times> jv" and u
    obtain k v where x: "x = (k, v)" by (cases x)
    show "urlOf x = Some u \<longleftrightarrow> (\<exists>k. x = (k, U u))"
      unfolding x by (cases v) auto
  qed
  have b: "\<And>u. ttlOf u = Some t \<longleftrightarrow> (\<exists>oper key. u = Signed oper key t)"
  proof -
    fix u show "ttlOf u = Some t \<longleftrightarrow> (\<exists>oper key. u = Signed oper key t)" by (cases u) auto
  qed
  have "t \<in> set (ttls (json c kvs)) \<longleftrightarrow>
        (\<exists>u \<in> set (List.map_filter urlOf kvs). ttlOf u = Some t)"
    unfolding ttls_simps by (rule set_map_filter_iff)
  also have "\<dots> \<longleftrightarrow> (\<exists>u. (\<exists>x \<in> set kvs. urlOf x = Some u) \<and> ttlOf u = Some t)"
    by (metis set_map_filter_iff)
  also have "\<dots> \<longleftrightarrow> (\<exists>k oper key. (k, U (Signed oper key t)) \<in> set kvs)"
    unfolding a b by blast
  finally show ?thesis .
qed

lemma ttls_directConfig:
  "t \<in> set (ttls (directUploadConfigHandler use_s3 w fn ft fs)) \<Longrightarrow>
   t = directExpiresIn (the fs)"
  unfolding directUploadConfigHandler_def
  apply (simp add: s3NotConfigured_def missingParameters_def mem_ttls split: if_splits option.splits)
  apply (auto simp: getDirectBrowserUploadConfig_def Let_def generatePresignedPost_def
      generatePresignedUploadUrl_def getMultipartPresignedUrl_def initiateMultipartUpload_def
      split: if_splits option.splits)
  done

lemma singleton_list: "length xs = 1 \<Longrightarrow> \<forall>t \<in> set xs. t = v \<Longrightarrow> xs = [v]"
  by (cases xs) auto

lemma ttls_uploadUrl_issued:
  "use_s3 \<Longrightarrow> signerOk w \<Longrightarrow> truthy ft \<Longrightarrow> truthy fn \<Longrightarrow>
   ttls (uploadUrlHandler use_s3 w ft fn) = [3600]"
  by (simp add: uploadUrlHandler_def generatePresignedUploadUrl_def ttls_simps Let_def)

lemma ttls_partUrl_issued:
  "use_s3 \<Longrightarrow> signerOk w \<Longrightarrow> truthy k \<Longrightarrow> truthy u \<Longrightarrow> truthy p \<Longrightarrow>
   ttls (partUrlHandler use_s3 w k u p) = [10800]"
  by (simp add: partUrlHandler_def getMultipartPresignedUrl_def ttls_simps Let_def)

lemma ttls_directConfig_none: "ttls (directUploadConfigHandler use_s3 w fn ft None) = []"
  by (simp add: directUploadConfigHandler_def s3NotConfigured_def missingParameters_def ttls_simps)

lemma ttls_directConfig_post:
  "use_s3 \<Longrightarrow> signerOk w \<Longrightarrow> truthy fn \<Longrightarrow> truthy ft \<Longrightarrow> 150 * 1024 * 1024 < n \<Longrightarrow>
   ttls (directUploadConfigHandler use_s3 w fn ft (Some n)) =
     [if n > 200 * 1024 * 1024 then 86400 else 3600]"
  by (simp add: directUploadConfigHandler_def getDirectBrowserUploadConfig_def
      generatePresignedPost_def directExpiresIn_def ttls_simps Let_def)

lemma ttls_directConfig_single:
  "use_s3 \<Longrightarrow> signerOk w \<Longrightarrow> truthy fn \<Longrightarrow> truthy ft \<Longrightarrow> 0 < n \<Longrightarrow> n \<le> 50 * 1024 * 1024 \<Longrightarrow>
   ttls (directUploadConfigHandler use_s3 w fn ft (Some n)) = [3600]"
  by (simp add: directUploadConfigHandler_def getDirectBrowserUploadConfig_def
      generatePresignedUploadUrl_def directExpiresIn_def ttls_simps Let_def)

lemma ttl_assetUrl:
  "ttlOf (getProperAssetUrl v use_s3 w pth ty) = Some t \<Longrightarrow> t = 604800"
  by (auto simp: getProperAssetUrl_def getPresignedUrl_def split: if_splits option.splits)

lemma ttl_assetUrl_issued:
  "\<not> v pth \<Longrightarrow> use_s3 \<Longrightarrow> s3Has w (normalizeS3Key pth) \<Longrightarrow> signerOk w \<Longrightarrow>
   ttlOf (getProperAssetUrl v use_s3 w pth ty) = Some 604800"
  by (simp add: getProperAssetUrl_def getPresignedUrl_def fileExistsInS3_def)

text \<open>
  C9 (as amended).  Signed upload URLs carry a lifetime of one hour (the single upload
  URL, and the direct-upload configuration for a file of at most 200 MiB), three hours (a
  multipart part URL) or 24 hours (the direct-upload configuration for a file above
  200 MiB).  Signed playback URLs carry one hour when \<^verbatim>\<open>GET /videos/:filename\<close> redirects
  to them, and seven days when the thumbnail handler or \<^verbatim>\<open>getProperAssetUrl\<close> issues them.
  So no upload URL lives shorter than the playback URL of the video handler, and every
  upload URL lives shorter than a seven-day URL.
\<close>

theorem C9_signed_url_lifetimes:
  "(\<forall>t \<in> set (ttls (uploadUrlHandler use_s3 w ft fn)). t = 3600)
   \<and> (use_s3 \<and> signerOk w \<and> truthy ft \<and> truthy fn \<longrightarrow>
        ttls (uploadUrlHandler use_s3 w ft fn) = [3600])
   \<and> (\<forall>t \<in> set (ttls (partUrlHandler use_s3 w k u p)). t = 10800)
   \<and> (use_s3 \<and> signerOk w \<and> truthy k \<and> truthy u \<and> truthy p \<longrightarrow>
        ttls (partUrlHandler use_s3 w k u p) = [10800])
   \<and> (\<forall>t \<in> set (ttls (directUploadConfigHandler use_s3 w dn dt (Some n))).
        t = (if n > 200 * 1024 * 1024 then 86400 else 3600))
   \<and> ttls (directUploadConfigHandler use_s3 w dn dt None) = []
   \<and> (use_s3 \<and> signerOk w \<and> truthy dn \<and> truthy dt \<and> 150 * 1024 * 1024 < n \<longrightarrow>
        ttls (directUploadConfigHandler use_s3 w dn dt (Some n)) =
          [if n > 200 * 1024 * 1024 then 86400 else 3600])
   \<and> (use_s3 \<and> signerOk w \<and> truthy dn \<and> truthy dt \<and> 0 < n \<and> n \<le> 50 * 1024 * 1024 \<longrightarrow>
        ttls (directUploadConfigHandler use_s3 w dn dt (Some n)) = [3600])
   \<and> (\<forall>t \<in> set (ttls (videosHandler use_s3 w f rh)). t = 3600)
   \<and> (\<forall>t \<in> set (ttls (fst (thumbnailsApiHandler use_s3 w tf))). t = 604800)
   \<and> (\<forall>t. ttlOf (getProperAssetUrl v use_s3 w pth ty) = Some t \<longrightarrow> t = 604800)
   \<and> (\<not> v pth \<and> use_s3 \<and> s3Has w (normalizeS3Key pth) \<and> signerOk w \<longrightarrow>
        ttlOf (getProperAssetUrl v use_s3 w pth ty) = Some 604800)
   \<and> (\<forall>tu \<in> set (ttls (uploadUrlHandler use_s3 w ft fn))
              \<union> set (ttls (partUrlHandler use_s3 w k u p))
              \<union> set (ttls (directUploadConfigHandler use_s3 w dn dt (Some n))).
        (\<forall>tp \<in> set (ttls (videosHandler use_s3 w f rh)). tp \<le> tu)
        \<and> (\<forall>tt \<in> set (ttls (fst (thumbnailsApiHandler use_s3 w tf))). tu < tt)
        \<and> (\<forall>ta. ttlOf (getProperAssetUrl v use_s3 w pth ty) = Some ta \<longrightarrow> tu < ta))"
proof -
  have a: "\<forall>t \<in> set (ttls (uploadUrlHandler use_s3 w ft fn)). t = 3600"
    using ttls_uploadUrl by blast
  have b: "\<forall>t \<in> set (ttls (partUrlHandler use_s3 w k u p)). t = 10800"
    using ttls_partUrl by blast
  have c: "\<forall>t \<in> set (ttls (directUploadConfigHandler use_s3 w dn dt (Some n))).
        t = (if n > 200 * 1024 * 1024 then 86400 else 3600)"
  proof
    fix t assume "t \<in> set (ttls (directUploadConfigHandler use_s3 w dn dt (Some n)))"
    from ttls_directConfig [OF this]
    show "t = (if n > 200 * 1024 * 1024 then 86400 else 3600)"
      by (simp add: directExpiresIn_def)
  qed
  have d: "\<forall>t \<in> set (ttls (videosHandler use_s3 w f rh)). t = 3600"
    using ttls_videos by blast
  have e: "\<forall>t \<in> set (ttls (fst (thumbnailsApiHandler use_s3 w tf))). t = 604800"
    using ttls_thumbs by blast
  have h: "\<forall>t. ttlOf (getProperAssetUrl v use_s3 w pth ty) = Some t \<longrightarrow> t = 604800"
    using ttl_assetUrl by blast
  have g: "\<forall>tu \<in> set (ttls (uploadUrlHandler use_s3 w ft fn))
              \<union> set (ttls (partUrlHandler use_s3 w k u p))
              \<union> set (ttls (directUploadConfigHandler use_s3 w dn dt (Some n))).
        (\<forall>tp \<in> set (ttls (videosHandler use_s3 w f rh)). tp \<le> tu)
        \<and> (\<forall>tt \<in> set (ttls (fst (thumbnailsApiHandler use_s3 w tf))). tu < tt)
        \<and> (\<forall>ta. ttlOf (getProperAssetUrl v use_s3 w pth ty) = Some ta \<longrightarrow> tu < ta)"
  proof
    fix tu
    assume "tu \<in> set (ttls (uploadUrlHandler use_s3 w ft fn))
              \<union> set (ttls (partUrlHandler use_s3 w k u p))
              \<union> set (ttls (directUploadConfigHandler use_s3 w dn dt (Some n)))"
    with a b c have "tu = 3600 \<or> tu = 10800 \<or> tu = 86400" by (auto split: if_splits)
    with d e h show "(\<forall>tp \<in> set (ttls (videosHandler use_s3 w f rh)). tp \<le> tu)
        \<and> (\<forall>tt \<in> set (ttls (fst (thumbnailsApiHandler use_s3 w tf))). tu < tt)
        \<and> (\<forall>ta. ttlOf (getProperAssetUrl v use_s3 w pth ty) = Some ta \<longrightarrow> tu < ta)"
      by auto
  qed
  show ?thesis
    apply (intro conjI)
                apply (rule a)
               apply (intro impI, elim conjE, erule (3) ttls_uploadUrl_issued)
              apply (rule b)
             apply (intro impI, elim conjE, erule (4) ttls_partUrl_issued)
            apply (rule c)
           apply (rule ttls_directConfig_none)
          apply (intro impI, elim conjE, erule (4) ttls_directConfig_post)
         apply (intro impI, elim conjE, erule (5) ttls_directConfig_single)
        apply (rule d)
       apply (rule e)
      apply (rule h)
     apply (intro impI, elim conjE, erule (3) ttl_assetUrl_issued)
    apply (rule g)
    done
qed

theorem C9_signed_url_lifetimes_witness:
  "ttls (uploadUrlHandler True (remoteOnly [''uploads/v.mp4'', ''thumbnails/t.jpg''])
           (Some ''video/mp4'') (Some ''a.mp4'')) = [3600]
   \<and> ttls (partUrlHandler True (remoteOnly [''uploads/v.mp4'', ''thumbnails/t.jpg''])
           (Some ''uploads/v.mp4'') (Some ''upload-1'') (Some ''1'')) = [10800]
   \<and> ttls (directUploadConfigHandler True (remoteOnly [''uploads/v.mp4'', ''thumbnails/t.jpg''])
           (Some ''a.mp4'') (Some ''video/mp4'') (Some (200 * 1024 * 1024))) = [3600]
   \<and> ttls (directUploadConfigHandler True (remoteOnly [''uploads/v.mp4'', ''thumbnails/t.jpg''])
           (Some ''a.mp4'') (Some ''video/mp4'') (Some (200 * 1024 * 1024 + 1))) = [86400]
   \<and> ttls (directUploadConfigHandler True (remoteOnly [''uploads/v.mp4'', ''thumbnails/t.jpg''])
           (Some ''a.mp4'') (Some ''video/mp4'') (Some (250 * 1024 * 1024))) = [86400]
   \<and> ttls (directUploadConfigHandler True (remoteOnly [''uploads/v.mp4'', ''thumbnails/t.jpg''])
           (Some ''a.mp4'') (Some ''video/mp4'') (Some (20 * 1024 * 1024))) = [3600]
   \<and> ttls (videosHandler True (remoteOnly [''uploads/v.mp4'', ''thumbnails/t.jpg'']) ''v.mp4'' None)
       = [3600]
   \<and> ttls (fst (thumbnailsApiHandler True (remoteOnly [''uploads/v.mp4'', ''thumbnails/t.jpg''])
           ''t.jpg'')) = [604800]
   \<and> ttlOf (getProperAssetUrl (\<lambda>p. False) True (remoteOnly [''uploads/v.mp4'', ''thumbnails/t.jpg''])
           ''uploads/v.mp4'' VideoAsset) = Some 604800"
proof -
  let ?w = "remoteOnly [''uploads/v.mp4'', ''thumbnails/t.jpg'']"
  have s: "signerOk ?w" by (simp add: remoteOnly_def)
  have t: "truthy (Some ''video/mp4'')" "truthy (Some ''a.mp4'')" "truthy (Some ''uploads/v.mp4'')"
    "truthy (Some ''upload-1'')" "truthy (Some ''1'')"
    by (simp_all add: truthy_def)
  have h: "s3Has ?w (normalizeS3Key ''uploads/v.mp4'')"
    by (simp add: remoteOnly_def normalizeS3Key_def)
  have 4: "length (ttls (videosHandler True ?w ''v.mp4'' None)) = 1"
    by (simp add: videosHandler_def remoteOnly_def fileExistsInS3_def getPresignedUrl_def normalizeS3Key_def ttls_simps Let_def)
  have 5: "length (ttls (fst (thumbnailsApiHandler True ?w ''t.jpg''))) = 1"
    by (simp add: thumbnailsApiHandler_def remoteOnly_def fileExistsInS3_def getPresignedUrl_def normalizeS3Key_def thumbKey_def ttls_simps Let_def)
  note c1 = C9_signed_url_lifetimes [of True ?w "Some ''video/mp4''" "Some ''a.mp4''"
      "Some ''uploads/v.mp4''" "Some ''upload-1''" "Some ''1''"
      "Some ''a.mp4''" "Some ''video/mp4''" "200 * 1024 * 1024" "''v.mp4''" None "''t.jpg''"
      "\<lambda>p. False" "''uploads/v.mp4''" VideoAsset]
  note c2 = C9_signed_url_lifetimes [of True ?w "Some ''video/mp4''" "Some ''a.mp4''"
      "Some ''uploads/v.mp4''" "Some ''upload-1''" "Some ''1''"
      "Some ''a.mp4''" "Some ''video/mp4''" "200 * 1024 * 1024 + 1" "''v.mp4''" None "''t.jpg''"
      "\<lambda>p. False" "''uploads/v.mp4''" VideoAsset]
  note c3 = C9_signed_url_lifetimes [of True ?w "Some ''video/mp4''" "Some ''a.mp4''"
      "Some ''uploads/v.mp4''" "Some ''upload-1''" "Some ''1''"
      "Some ''a.mp4''" "Some ''video/mp4''" "250 * 1024 * 1024" "''v.mp4''" None "''t.jpg''"
      "\<lambda>p. False" "''uploads/v.mp4''" VideoAsset]
  note c4 = C9_signed_url_lifetimes [of True ?w "Some ''video/mp4''" "Some ''a.mp4''"
      "Some ''uploads/v.mp4''" "Some ''upload-1''" "Some ''1''"
      "Some ''a.mp4''" "Some ''video/mp4''" "20 * 1024 * 1024" "''v.mp4''" None "''t.jpg''"
      "\<lambda>p. False" "''uploads/v.mp4''" VideoAsset]
  note n2 = conjunct2 [THEN conjunct2]
  note n4 = n2 [THEN n2]
  have u1: "ttls (uploadUrlHandler True ?w (Some ''video/mp4'') (Some ''a.mp4'')) = [3600]"
    using c1 [THEN conjunct2, THEN conjunct1] s t by simp
  have u2: "ttls (partUrlHandler True ?w (Some ''uploads/v.mp4'') (Some ''upload-1'') (Some ''1'')) = [10800]"
    using c1 [THEN n2, THEN conjunct2, THEN conjunct1] s t by simp
  have d1: "ttls (directUploadConfigHandler True ?w (Some ''a.mp4'') (Some ''video/mp4'') (Some (200 * 1024 * 1024))) = [3600]"
    using c1 [THEN n4, THEN n2, THEN conjunct1] s t by simp
  have d2: "ttls (directUploadConfigHandler True ?w (Some ''a.mp4'') (Some ''video/mp4'') (Some (200 * 1024 * 1024 + 1))) = [86400]"
    using c2 [THEN n4, THEN n2, THEN conjunct1] s t by simp
  have d3: "ttls (directUploadConfigHandler True ?w (Some ''a.mp4'') (Some ''video/mp4'') (Some (250 * 1024 * 1024))) = [86400]"
    using c3 [THEN n4, THEN n2, THEN conjunct1] s t by simp
  have d4: "ttls (directUploadConfigHandler True ?w (Some ''a.mp4'') (Some ''video/mp4'') (Some (20 * 1024 * 1024))) = [3600]"
    using c4 [THEN n4, THEN n2, THEN conjunct2, THEN conjunct1] s t by simp
  note v = c1 [THEN n4, THEN n4, THEN conjunct1]
  note th = c1 [THEN n4, THEN n4, THEN conjunct2, THEN conjunct1]
  have as: "ttlOf (getProperAssetUrl (\<lambda>p. False) True ?w ''uploads/v.mp4'' VideoAsset) = Some 604800"
    using c1 [THEN n4, THEN n4, THEN n2, THEN conjunct2, THEN conjunct1] s h by simp
  show ?thesis
    by (intro conjI u1 u2 d1 d2 d3 d4 singleton_list [OF 4 v] singleton_list [OF 5 th] as)
qed

text \<open>
  C9 as stated fails: a part upload URL is signed for 10800 seconds, the playback URL of a
  video for 3600 seconds.
\<close>

theorem C9_counterexample:
  "ttls (partUrlHandler True (remoteOnly [''uploads/v.mp4''])
           (Some ''uploads/v.mp4'') (Some ''upload-1'') (Some ''1'')) = [10800]
   \<and> ttls (videosHandler True (remoteOnly [''uploads/v.mp4'']) ''v.mp4'' None) = [3600]
   \<and> \<not> (10800 < (3600 :: nat))"
  by (simp add: partUrlHandler_def remoteOnly_def truthy_def getMultipartPresignedUrl_def ttls_simps Let_def
      videosHandler_def fileExistsInS3_def getPresignedUrl_def normalizeS3Key_def)


subsection \<open>Relayed and registered uploads\<close>


lemma status_json: "status (json c kvs) = c" by (simp add: json_def respond_def)

lemma generateThumbnail_fields:
  "generateThumbnail w n = (ok, w1) \<Longrightarrow>
     uploadDir w1 = uploadDir w \<and> s3Has w1 = s3Has w \<and> finalized w1 = finalized w
     \<and> videos w1 = videos w \<and> dbOk w1 = dbOk w \<and> uuid w1 = uuid w \<and> s3PutOk w1 = s3PutOk w
     \<and> s3Origin w1 = s3Origin w"
  by (auto simp: generateThumbnail_def split: option.splits)

lemma uploadFileToS3_fields:
  "uploadFileToS3 use_s3 w k = Some (u, w1) \<Longrightarrow>
     use_s3 \<and> s3PutOk w (normalizeS3Key k)
     \<and> uploadDir w1 = uploadDir w \<and> finalized w1 = finalized w
     \<and> videos w1 = videos w \<and> dbOk w1 = dbOk w \<and> uuid w1 = uuid w \<and> s3PutOk w1 = s3PutOk w
     \<and> thumbnailDir w1 = thumbnailDir w"
  by (auto simp: uploadFileToS3_def Let_def split: if_splits)

lemma uploadFileToS3_none:
  "uploadFileToS3 use_s3 w k = None \<longleftrightarrow> \<not> (use_s3 \<and> s3PutOk w (normalizeS3Key k))"
  by (auto simp: uploadFileToS3_def Let_def)

lemma tryUploadToS3_result:
  assumes "tryUploadToS3 use_s3 w1 filename tn ok = (videoPath, thumbPath, w2)"
  shows "videoPath = storedPath use_s3 w1 filename \<and> uploadDir w2 = uploadDir w1
         \<and> videos w2 = videos w1 \<and> dbOk w2 = dbOk w1 \<and> finalized w2 = finalized w1
         \<and> (\<not> use_s3 \<longrightarrow> w2 = w1)"
proof (cases "uploadFileToS3 use_s3 w1 (''uploads/'' @ filename)")
  case None
  then have "\<not> (use_s3 \<and> s3PutOk w1 (''uploads/'' @ filename))"
    by (simp add: uploadFileToS3_none normalizeS3Key_def)
  with assms None show ?thesis
    by (auto simp: tryUploadToS3_def storedPath_def split: if_splits)
next
  case (Some p)
  obtain u wa where p: "p = (u, wa)" by (cases p)
  note fa = uploadFileToS3_fields [OF Some [unfolded p]]
  then have ok1: "use_s3 \<and> s3PutOk w1 (''uploads/'' @ filename)"
    by (simp add: normalizeS3Key_def)
  show ?thesis
  proof (cases ok)
    case False
    with assms Some p fa ok1 show ?thesis
      by (simp add: tryUploadToS3_def storedPath_def)
  next
    case True
    show ?thesis
    proof (cases "uploadFileToS3 use_s3 wa (''thumbnails/'' @ tn)")
      case None
      with assms Some p fa ok1 True show ?thesis
        by (simp add: tryUploadToS3_def storedPath_def)
    next
      case b: (Some q)
      obtain u2 wb where q: "q = (u2, wb)" by (cases q)
      note fb = uploadFileToS3_fields [OF b [unfolded q]]
      from assms Some p True b q fa fb ok1 show ?thesis
        by (simp add: tryUploadToS3_def storedPath_def)
    qed
  qed
qed

lemma process_some:
  assumes "generateThumbnail w (''thumbnail-'' @ uuid w 1 @ ''.jpg'') = (ok, w1)"
    and "tryUploadToS3 use_s3 w1 filename (''thumbnail-'' @ uuid w 1 @ ''.jpg'') ok = (vp, tp, w2)"
  shows "processVideoUpload use_s3 w form (Some (filename, f)) =
     (case (formTitle form, parseIntAuto (orElse (formDuration form) ''0'')) of
        (Some t, Some d) \<Rightarrow>
          if dbOk w2 then
            (json 201 (videoJson (formVideoData form t d vp tp)),
             w2\<lparr>videos := videos w2 @ [formVideoData form t d vp tp]\<rparr>)
          else (json 500 [(''message'', S ''Failed to upload video'')], w2)
      | _ \<Rightarrow> (json 400 [(''message'', S ''Validation error'')], w2))"
  using assms by (simp add: processVideoUpload_def Let_def split: option.splits)

lemma process_created:
  assumes "processVideoUpload use_s3 w form rf = (r, w')" and "status r = 201"
  shows "\<exists>filename f v. rf = Some (filename, f) \<and> videos w' = videos w @ [v]
           \<and> filePath v = storedPath use_s3 w filename \<and> uploadDir w' = uploadDir w"
proof (cases rf)
  case None
  with assms show ?thesis by (auto simp: processVideoUpload_def status_json)
next
  case (Some p)
  obtain filename f where p: "p = (filename, f)" by (cases p)
  obtain ok w1 where g: "generateThumbnail w (''thumbnail-'' @ uuid w 1 @ ''.jpg'') = (ok, w1)"
    by (cases "generateThumbnail w (''thumbnail-'' @ uuid w 1 @ ''.jpg'')")
  note gf = generateThumbnail_fields [OF g]
  obtain vp tp w2 where t: "tryUploadToS3 use_s3 w1 filename (''thumbnail-'' @ uuid w 1 @ ''.jpg'') ok = (vp, tp, w2)"
    by (cases "tryUploadToS3 use_s3 w1 filename (''thumbnail-'' @ uuid w 1 @ ''.jpg'') ok") auto
  note tf = tryUploadToS3_result [OF t]
  have sp: "vp = storedPath use_s3 w filename"
    using gf tf by (simp add: storedPath_def)
  have up: "uploadDir w2 = uploadDir w" and vs: "videos w2 = videos w" using gf tf by simp_all
  note eq = assms(1) [unfolded Some p process_some [OF g t]]
  show ?thesis
  proof (cases "formTitle form")
    case None
    with eq assms(2) show ?thesis by (auto simp: status_json)
  next
    case t1: (Some t)
    show ?thesis
    proof (cases "parseIntAuto (orElse (formDuration form) ''0'')")
      case None
      with eq t1 assms(2) show ?thesis by (auto simp: status_json)
    next
      case d1: (Some d)
      show ?thesis
      proof (cases "dbOk w2")
        case False
        with eq t1 d1 assms(2) show ?thesis by (auto simp: status_json)
      next
        case True
        with eq t1 d1 have "w' = w2\<lparr>videos := videos w2 @ [formVideoData form t d vp tp]\<rparr>"
          by simp
        then show ?thesis using Some p sp up vs by (simp add: formVideoData_def)
      qed
    qed
  qed
qed

lemma process_status:
  "status (fst (processVideoUpload use_s3 w form rf)) = status (fst (processVideoUpload False w form rf))"
proof (cases rf)
  case None
  then show ?thesis by (simp add: processVideoUpload_def)
next
  case (Some p)
  obtain filename f where p: "p = (filename, f)" by (cases p)
  obtain ok w1 where g: "generateThumbnail w (''thumbnail-'' @ uuid w 1 @ ''.jpg'') = (ok, w1)"
    by (cases "generateThumbnail w (''thumbnail-'' @ uuid w 1 @ ''.jpg'')")
  obtain vp tp w2 where t: "tryUploadToS3 use_s3 w1 filename (''thumbnail-'' @ uuid w 1 @ ''.jpg'') ok = (vp, tp, w2)"
    by (cases "tryUploadToS3 use_s3 w1 filename (''thumbnail-'' @ uuid w 1 @ ''.jpg'') ok") auto
  have db: "dbOk w2 = dbOk w1" using tryUploadToS3_result [OF t] by simp
  have t0: "tryUploadToS3 False w1 filename (''thumbnail-'' @ uuid w 1 @ ''.jpg'') ok = (filename, ''thumbnail-'' @ uuid w 1 @ ''.jpg'', w1)"
    by (simp add: tryUploadToS3_def)
  show ?thesis
    unfolding Some p process_some [OF g t] process_some [OF g t0]
    by (simp add: db status_json split: option.splits)
qed

lemma postVideos_created:
  assumes "postVideos use_s3 w form = (r, w')" and "status r = 201"
  shows "\<exists>f v. formFile form = Some f \<and> videos w' = videos w @ [v]
           \<and> uploadDir w' (uuid w 0 @ extname (originalname f)) = Some (fileBytes f)
           \<and> filePath v = storedPath use_s3 w (uuid w 0 @ extname (originalname f))"
proof (cases "formFile form")
  case None
  with assms show ?thesis by (auto simp: postVideos_def processVideoUpload_def status_json)
next
  case (Some f)
  let ?name = "uuid w 0 @ extname (originalname f)"
  let ?w0 = "w\<lparr>uploadDir := (uploadDir w)(?name \<mapsto> fileBytes f)\<rparr>"
  from assms Some have pr: "processVideoUpload use_s3 ?w0 form (Some (?name, f)) = (r, w')"
    by (auto simp: postVideos_def Let_def status_json split: if_splits)
  from process_created [OF pr assms(2)]
  obtain v where v: "videos w' = videos ?w0 @ [v]" "filePath v = storedPath use_s3 ?w0 ?name"
    "uploadDir w' = uploadDir ?w0"
    by auto
  have "storedPath use_s3 ?w0 ?name = storedPath use_s3 w ?name" by (simp add: storedPath_def)
  with v Some show ?thesis by simp
qed

lemma postVideos_status:
  "status (fst (postVideos use_s3 w form)) = status (fst (postVideos False w form))"
proof (cases "formFile form")
  case None
  then show ?thesis by (simp add: postVideos_def process_status [of use_s3])
next
  case (Some f)
  then show ?thesis by (simp add: postVideos_def Let_def process_status [of use_s3])
qed

lemma uploadThumbnail_fields:
  "uploadThumbnail use_s3 w ok n = Some (u, w1) \<Longrightarrow>
     uploadDir w1 = uploadDir w \<and> videos w1 = videos w \<and> dbOk w1 = dbOk w"
  by (auto simp: uploadThumbnail_def split: if_splits dest: uploadFileToS3_fields)

lemma videosS3_download_failed:
  assumes "use_s3" and "truthy (regKey req)"
    and "downloadFileFromS3 use_s3 w (the (regKey req)) = None"
  shows "videosS3Handler use_s3 w req = (s3Failed, w)"
  using assms by (simp add: videosS3Handler_def s3Failed_def Let_def)

lemma videosS3_thumbnail_failed:
  assumes "use_s3" and "truthy (regKey req)"
    and "downloadFileFromS3 use_s3 w (the (regKey req)) = Some bytes"
    and "generateThumbnail (w\<lparr>uploadDir := (uploadDir w)(''temp-'' @ uuid w 0 @ ''.mp4'' \<mapsto> bytes)\<rparr>)
           (''thumbnail-'' @ uuid w 1 @ ''.jpg'') = (ok, w2)"
    and "uploadThumbnail use_s3 w2 ok (''thumbnail-'' @ uuid w 1 @ ''.jpg'') = None"
  shows "fst (videosS3Handler use_s3 w req) = s3Failed"
  using assms by (simp add: videosS3Handler_def s3Failed_def Let_def)

lemma videosS3_registered:
  assumes "use_s3" and "truthy (regKey req)"
    and "downloadFileFromS3 use_s3 w (the (regKey req)) = Some bytes"
    and "generateThumbnail (w\<lparr>uploadDir := (uploadDir w)(''temp-'' @ uuid w 0 @ ''.mp4'' \<mapsto> bytes)\<rparr>)
           (''thumbnail-'' @ uuid w 1 @ ''.jpg'') = (ok, w2)"
    and "uploadThumbnail use_s3 w2 ok (''thumbnail-'' @ uuid w 1 @ ''.jpg'') = Some (tu, w3)"
  shows "videosS3Handler use_s3 w req =
     (if dbOk w3 then
        (json 201 (videoJson (s3VideoData req (the (regKey req)) tu (''thumbnail-'' @ uuid w 1 @ ''.jpg''))),
         (w3\<lparr>uploadDir := (uploadDir w3)(''temp-'' @ uuid w 0 @ ''.mp4'' := None)\<rparr>)
           \<lparr>videos := videos w3 @ [s3VideoData req (the (regKey req)) tu (''thumbnail-'' @ uuid w 1 @ ''.jpg'')]\<rparr>)
      else (s3Failed, w3\<lparr>uploadDir := (uploadDir w3)(''temp-'' @ uuid w 0 @ ''.mp4'' := None)\<rparr>))"
  using assms by (simp add: videosS3Handler_def s3Failed_def Let_def)

lemma status_s3Failed: "status s3Failed = 500" by (simp add: s3Failed_def status_json)

lemma videosS3_created:
  assumes "videosS3Handler use_s3 w req = (r, w')" and "status r = 201"
  shows "(\<exists>v. videos w' = videos w @ [v] \<and> filePath v = the (regKey req))
         \<and> uploadDir w' = (uploadDir w)(''temp-'' @ uuid w 0 @ ''.mp4'' := None)"
proof -
  let ?temp = "''temp-'' @ uuid w 0 @ ''.mp4''"
  let ?tn = "''thumbnail-'' @ uuid w 1 @ ''.jpg''"
  from assms have s3: use_s3 and key: "truthy (regKey req)"
    by (auto simp: videosS3Handler_def s3NotConfigured_def status_json split: if_splits)
  obtain bytes where dl: "downloadFileFromS3 use_s3 w (the (regKey req)) = Some bytes"
  proof (cases "downloadFileFromS3 use_s3 w (the (regKey req))")
    case None
    from videosS3_download_failed [OF s3 key None] assms have False
      by (simp add: status_s3Failed)
    then show ?thesis ..
  next
    case (Some b)
    then show ?thesis by (rule that)
  qed
  let ?w1 = "w\<lparr>uploadDir := (uploadDir w)(?temp \<mapsto> bytes)\<rparr>"
  obtain ok w2 where g: "generateThumbnail ?w1 ?tn = (ok, w2)"
    by (cases "generateThumbnail ?w1 ?tn")
  note gf = generateThumbnail_fields [OF g]
  obtain tu w3 where up: "uploadThumbnail use_s3 w2 ok ?tn = Some (tu, w3)"
  proof (cases "uploadThumbnail use_s3 w2 ok ?tn")
    case None
    from videosS3_thumbnail_failed [OF s3 key dl g None] assms have False
      by (simp add: status_s3Failed)
    then show ?thesis ..
  next
    case (Some q)
    then show ?thesis using that by (cases q) auto
  qed
  note f3 = uploadThumbnail_fields [OF up]
  define v where "v = s3VideoData req (the (regKey req)) tu ?tn"
  have v: "filePath v = the (regKey req)" by (simp add: v_def s3VideoData_def)
  have eq: "videosS3Handler use_s3 w req =
     (if dbOk w3 then
        (json 201 (videoJson v),
         (w3\<lparr>uploadDir := (uploadDir w3)(?temp := None)\<rparr>)\<lparr>videos := videos w3 @ [v]\<rparr>)
      else (s3Failed, w3\<lparr>uploadDir := (uploadDir w3)(?temp := None)\<rparr>))"
    unfolding v_def by (rule videosS3_registered [OF s3 key dl g up])
  have db: "dbOk w3"
  proof (rule ccontr)
    assume "\<not> dbOk w3"
    with eq assms show False by (simp add: status_s3Failed)
  qed
  with eq assms(1) have "w' = (w3\<lparr>uploadDir := (uploadDir w3)(?temp := None)\<rparr>)\<lparr>videos := videos w3 @ [v]\<rparr>"
    by simp
  then show ?thesis using f3 gf v by auto
qed

text \<open>
  C3 (as amended).  A relayed upload (\<^verbatim>\<open>POST /api/videos\<close>) that succeeds has written
  the file into the upload directory, where it stays; the record then holds the remote
  key when the remote write was attempted and succeeded and the local name otherwise, and
  a failing remote write never changes the status of the upload.  A registration of an
  object that the browser put into the remote store itself (\<^verbatim>\<open>POST /api/videos/s3\<close>)
  records the remote key and leaves no local copy: its download is a temporary file that
  is removed before the record is created.
\<close>

theorem C3_local_first:
  "(\<forall>r w'. postVideos use_s3 w form = (r, w') \<and> status r = 201 \<longrightarrow>
       (\<exists>f v. formFile form = Some f \<and> videos w' = videos w @ [v]
          \<and> uploadDir w' (uuid w 0 @ extname (originalname f)) = Some (fileBytes f)
          \<and> filePath v = storedPath use_s3 w (uuid w 0 @ extname (originalname f))))
   \<and> status (fst (postVideos use_s3 w form)) = status (fst (postVideos False w form))
   \<and> (\<forall>r w'. videosS3Handler use_s3 w req = (r, w') \<and> status r = 201 \<longrightarrow>
        (\<exists>v. videos w' = videos w @ [v] \<and> filePath v = the (regKey req))
        \<and> uploadDir w' = (uploadDir w)(''temp-'' @ uuid w 0 @ ''.mp4'' := None))"
proof (intro conjI allI impI)
  fix r w'
  assume "postVideos use_s3 w form = (r, w') \<and> status r = 201"
  then show "\<exists>f v. formFile form = Some f \<and> videos w' = videos w @ [v]
          \<and> uploadDir w' (uuid w 0 @ extname (originalname f)) = Some (fileBytes f)
          \<and> filePath v = storedPath use_s3 w (uuid w 0 @ extname (originalname f))"
    using postVideos_created by blast
next
  show "status (fst (postVideos use_s3 w form)) = status (fst (postVideos False w form))"
    by (rule postVideos_status)
next
  fix r w'
  assume a: "videosS3Handler use_s3 w req = (r, w') \<and> status r = 201"
  then show "\<exists>v. videos w' = videos w @ [v] \<and> filePath v = the (regKey req)"
    using videosS3_created by blast
  from a show "uploadDir w' = (uploadDir w)(''temp-'' @ uuid w 0 @ ''.mp4'' := None)"
    using videosS3_created by blast
qed

lemma fixture_names:
  "extname ''a.mp4'' = ''.mp4''" "showNat 0 = ''0''"
  by code_simp+

lemma fixture_post_status:
  "status (fst (postVideos True (remoteOnly []) (formOf ''a.mp4'' [7, 8, 9] ''t''))) = 201"
  "status (fst (postVideos True (localOnly []) (formOf ''a.mp4'' [7, 8, 9] ''t''))) = 201"
  by (simp_all add: postVideos_def formOf_def remoteOnly_def localOnly_def fileFilter_def effectiveFileSize_def enforceFileSizeLimit_def
      processVideoUpload_def generateThumbnail_def tryUploadToS3_def uploadFileToS3_def normalizeS3Key_def
      parseIntAuto_def parseInt_def orElse_def isDigit_def isStrWhiteSpaceChar_def digitVal_def 
      json_def respond_def Let_def)

lemma fixture_reg_status:
  "status (fst (videosS3Handler True (remoteOnly [''uploads/v.mp4''])
                  (registrationOf ''uploads/v.mp4'' ''t''))) = 201"
  by (simp add: videosS3Handler_def registrationOf_def remoteOnly_def truthy_def downloadFileFromS3_def
      normalizeS3Key_def generateThumbnail_def uploadThumbnail_def json_def respond_def Let_def)

theorem C3_local_first_witness:
  "(\<exists>v. videos (snd (postVideos True (remoteOnly []) (formOf ''a.mp4'' [7, 8, 9] ''t''))) = [v]
        \<and> filePath v = ''uploads/id0.mp4'')
   \<and> uploadDir (snd (postVideos True (remoteOnly []) (formOf ''a.mp4'' [7, 8, 9] ''t''))) ''id0.mp4''
       = Some [7, 8, 9]
   \<and> (\<exists>v. videos (snd (postVideos True (localOnly []) (formOf ''a.mp4'' [7, 8, 9] ''t''))) = [v]
        \<and> filePath v = ''id0.mp4'')
   \<and> uploadDir (snd (postVideos True (localOnly []) (formOf ''a.mp4'' [7, 8, 9] ''t''))) ''id0.mp4''
       = Some [7, 8, 9]
   \<and> (\<exists>v. videos (snd (videosS3Handler True (remoteOnly [''uploads/v.mp4''])
                         (registrationOf ''uploads/v.mp4'' ''t''))) = [v]
        \<and> filePath v = ''uploads/v.mp4'')"
proof -
  let ?F = "formOf ''a.mp4'' [7, 8, 9] ''t''"
  let ?R = "registrationOf ''uploads/v.mp4'' ''t''"
  have p1: "postVideos True (remoteOnly []) ?F
            = (fst (postVideos True (remoteOnly []) ?F), snd (postVideos True (remoteOnly []) ?F))
            \<and> status (fst (postVideos True (remoteOnly []) ?F)) = 201"
    using fixture_post_status(1) by simp
  have p2: "postVideos True (localOnly []) ?F
            = (fst (postVideos True (localOnly []) ?F), snd (postVideos True (localOnly []) ?F))
            \<and> status (fst (postVideos True (localOnly []) ?F)) = 201"
    using fixture_post_status(2) by simp
  have p3: "videosS3Handler True (remoteOnly [''uploads/v.mp4'']) ?R
            = (fst (videosS3Handler True (remoteOnly [''uploads/v.mp4'']) ?R),
               snd (videosS3Handler True (remoteOnly [''uploads/v.mp4'']) ?R))
            \<and> status (fst (videosS3Handler True (remoteOnly [''uploads/v.mp4'']) ?R)) = 201"
    using fixture_reg_status by simp
  have n1: "uuid (remoteOnly []) 0 = ''id0''" "uuid (localOnly []) 0 = ''id0''"
    by (simp_all add: remoteOnly_def localOnly_def fixture_names)
  have f: "formFile ?F = Some \<lparr>originalname = ''a.mp4'', mimetype = ''video/mp4'', fileBytes = [7, 8, 9]\<rparr>"
    by (simp add: formOf_def)
  have s1: "storedPath True (remoteOnly []) ''id0.mp4'' = ''uploads/id0.mp4''"
    "storedPath True (localOnly []) ''id0.mp4'' = ''id0.mp4''"
    by (simp_all add: storedPath_def remoteOnly_def localOnly_def)
  have v0: "videos (remoteOnly []) = []" "videos (localOnly []) = []"
    "videos (remoteOnly [''uploads/v.mp4'']) = []"
    by (simp_all add: remoteOnly_def localOnly_def)
  have k: "the (regKey ?R) = ''uploads/v.mp4''" by (simp add: registrationOf_def)
  note c1 = C3_local_first [of True "remoteOnly []" ?F ?R, THEN conjunct1, rule_format, OF p1]
  note c2 = C3_local_first [of True "localOnly []" ?F ?R, THEN conjunct1, rule_format, OF p2]
  note c3 = C3_local_first [of True "remoteOnly [''uploads/v.mp4'']" ?F ?R,
      THEN conjunct2, THEN conjunct2, rule_format, OF p3]
  from c1 have a1: "(\<exists>v. videos (snd (postVideos True (remoteOnly []) ?F)) = [v]
        \<and> filePath v = ''uploads/id0.mp4'')
      \<and> uploadDir (snd (postVideos True (remoteOnly []) ?F)) ''id0.mp4'' = Some [7, 8, 9]"
    by (auto simp: f n1 fixture_names s1 v0)
  from c2 have a2: "(\<exists>v. videos (snd (postVideos True (localOnly []) ?F)) = [v]
        \<and> filePath v = ''id0.mp4'')
      \<and> uploadDir (snd (postVideos True (localOnly []) ?F)) ''id0.mp4'' = Some [7, 8, 9]"
    by (auto simp: f n1 fixture_names s1 v0)
  from c3 have a3: "\<exists>v. videos (snd (videosS3Handler True (remoteOnly [''uploads/v.mp4'']) ?R)) = [v]
        \<and> filePath v = ''uploads/v.mp4''"
    by (auto simp: k v0)
  from a1 a2 a3 show ?thesis by blast
qed

text \<open>
  C3 as stated fails: a successful registration through \<^verbatim>\<open>POST /api/videos/s3\<close> ends
  with an empty upload directory.
\<close>

theorem C3_counterexample:
  "status (fst (videosS3Handler True (remoteOnly [''uploads/v.mp4''])
                  (registrationOf ''uploads/v.mp4'' ''t''))) = 201
   \<and> uploadDir (snd (videosS3Handler True (remoteOnly [''uploads/v.mp4''])
                  (registrationOf ''uploads/v.mp4'' ''t''))) = Map.empty"
  by (simp add: videosS3Handler_def registrationOf_def remoteOnly_def truthy_def downloadFileFromS3_def
      normalizeS3Key_def generateThumbnail_def uploadThumbnail_def json_def respond_def Let_def)

subsection \<open>The gate of the remote store\<close>

lemma process_local_only:
  assumes "processVideoUpload False w form rf = (r, w')"
  shows "s3Has w' = s3Has w \<and> finalized w' = finalized w"
proof (cases rf)
  case None
  with assms show ?thesis by (auto simp: processVideoUpload_def)
next
  case (Some p)
  obtain filename f where p: "p = (filename, f)" by (cases p)
  obtain ok w1 where g: "generateThumbnail w (''thumbnail-'' @ uuid w 1 @ ''.jpg'') = (ok, w1)"
    by (cases "generateThumbnail w (''thumbnail-'' @ uuid w 1 @ ''.jpg'')")
  note gf = generateThumbnail_fields [OF g]
  have t0: "tryUploadToS3 False w1 filename (''thumbnail-'' @ uuid w 1 @ ''.jpg'') ok
            = (filename, ''thumbnail-'' @ uuid w 1 @ ''.jpg'', w1)"
    by (simp add: tryUploadToS3_def)
  note eq = assms [unfolded Some p process_some [OF g t0]]
  from eq gf show ?thesis
    by (auto split: option.splits if_splits)
qed

lemma postVideos_local_only:
  assumes "postVideos False w form = (r, w')"
  shows "s3Has w' = s3Has w \<and> finalized w' = finalized w"
proof (cases "formFile form")
  case None
  with assms show ?thesis using process_local_only [of w form None r w']
    by (simp add: postVideos_def)
next
  case (Some f)
  show ?thesis
  proof (cases "fileFilter f \<and> \<not> length (fileBytes f) > effectiveFileSize w")
    case False
    with assms Some show ?thesis by (auto simp: postVideos_def split: if_splits)
  next
    case True
    let ?name = "uuid w 0 @ extname (originalname f)"
    let ?w0 = "w\<lparr>uploadDir := (uploadDir w)(?name \<mapsto> fileBytes f)\<rparr>"
    from assms Some True have "processVideoUpload False ?w0 form (Some (?name, f)) = (r, w')"
      by (simp add: postVideos_def Let_def)
    from process_local_only [OF this] show ?thesis by simp
  qed
qed

lemma s3NotConfigured_status:
  "status (s3NotConfigured msg fb) = 400"
  "\<exists>rest. body (s3NotConfigured msg fb) = Json ((''error'', S ''S3 not configured'') # rest)"
  by (simp_all add: s3NotConfigured_def json_def respond_def)

lemma missingVars_empty:
  "missingVars e = [] \<longleftrightarrow>
     truthy (AWS_ACCESS_KEY_ID e) \<and> truthy (AWS_SECRET_ACCESS_KEY e)
       \<and> truthy (AWS_REGION e) \<and> truthy (AWS_S3_BUCKET e)"
  by (simp add: missingVars_def requiredVars_def processEnv_def)

lemma use_s3_iff:
  "USE_S3 e \<longleftrightarrow>
     truthy (AWS_ACCESS_KEY_ID e) \<and> truthy (AWS_SECRET_ACCESS_KEY e)
       \<and> truthy (AWS_REGION e) \<and> truthy (AWS_S3_BUCKET e)"
  unfolding USE_S3_def checkS3Configuration_def missingVars_empty [symmetric]
  by simp

lemma use_s3_configured: "USE_S3 configuredEnv"
  by (simp add: use_s3_iff configuredEnv_def truthy_def)

lemma fixture_post_local:
  "status (fst (postVideos False (remoteOnly []) (formOf ''a.mp4'' [7, 8, 9] ''t''))) = 201"
  using postVideos_status [of True "remoteOnly []" "formOf ''a.mp4'' [7, 8, 9] ''t''"]
    fixture_post_status(1)
  by simp

text \<open>
  C4 (as amended).  The configuration check returns true exactly when the access key id,
  the secret access key, the region and the bucket are all set and not empty, and
  \<^verbatim>\<open>USE_S3\<close> is its value.  When the flag is false each of the eight gated endpoints
  answers 400 with the error \<^verbatim>\<open>S3 not configured\<close> whatever the request, and a relayed
  upload touches the local store only: the remote store is left as it was and a created
  record refers to the local file.
\<close>

theorem C4_remote_store_gate:
  "(USE_S3 e \<longleftrightarrow>
      truthy (AWS_ACCESS_KEY_ID e) \<and> truthy (AWS_SECRET_ACCESS_KEY e)
        \<and> truthy (AWS_REGION e) \<and> truthy (AWS_S3_BUCKET e))
   \<and> (\<not> USE_S3 e \<longrightarrow>
        uploadUrlHandler (USE_S3 e) w fileType fileName =
          s3NotConfigured ''S3 integration is disabled. Please use the standard upload endpoint.'' True
        \<and> multipartInitHandler (USE_S3 e) w fileName fileType fileSize =
            s3NotConfigured ''S3 integration is disabled. Please use the standard upload endpoint.'' False
        \<and> partUrlHandler (USE_S3 e) w key uploadId partNumber =
            s3NotConfigured ''S3 integration is disabled. Please use the standard upload endpoint.'' False
        \<and> multipartCompleteHandler (USE_S3 e) w key uploadId parts =
            (s3NotConfigured ''S3 integration is disabled. Please use the standard upload endpoint.'' False, w)
        \<and> directUploadConfigHandler (USE_S3 e) w fileName fileType fileSize =
            s3NotConfigured ''S3 integration is disabled. Use the standard file upload endpoint.'' True
        \<and> directUploadCompleteHandler (USE_S3 e) w key uploadId parts =
            (s3NotConfigured ''S3 integration is disabled.'' False, w)
        \<and> directUploadRegisterHandler (USE_S3 e) w req =
            (s3NotConfigured ''S3 integration is disabled.'' False, w)
        \<and> videosS3Handler (USE_S3 e) w req =
            (s3NotConfigured ''S3 integration is disabled. Please use the standard upload endpoint.'' True, w)
        \<and> (\<forall>r w'. postVideos (USE_S3 e) w form = (r, w') \<longrightarrow>
              s3Has w' = s3Has w \<and> finalized w' = finalized w
              \<and> (status r = 201 \<longrightarrow>
                   (\<exists>f v. formFile form = Some f \<and> videos w' = videos w @ [v]
                      \<and> filePath v = uuid w 0 @ extname (originalname f)
                      \<and> uploadDir w' (filePath v) = Some (fileBytes f)))))
   \<and> (\<forall>msg fb. status (s3NotConfigured msg fb) = 400
         \<and> (\<exists>rest. body (s3NotConfigured msg fb) = Json ((''error'', S ''S3 not configured'') # rest)))"
proof (intro conjI impI)
  show "USE_S3 e \<longleftrightarrow>
      truthy (AWS_ACCESS_KEY_ID e) \<and> truthy (AWS_SECRET_ACCESS_KEY e)
        \<and> truthy (AWS_REGION e) \<and> truthy (AWS_S3_BUCKET e)"
    by (rule use_s3_iff)
next
  show "\<forall>msg fb. status (s3NotConfigured msg fb) = 400
         \<and> (\<exists>rest. body (s3NotConfigured msg fb) = Json ((''error'', S ''S3 not configured'') # rest))"
    using s3NotConfigured_status by blast
next
  assume "\<not> USE_S3 e"
  then have u: "USE_S3 e = False" by simp
  show "uploadUrlHandler (USE_S3 e) w fileType fileName =
          s3NotConfigured ''S3 integration is disabled. Please use the standard upload endpoint.'' True"
    unfolding u by (simp add: uploadUrlHandler_def)
  show "multipartInitHandler (USE_S3 e) w fileName fileType fileSize =
            s3NotConfigured ''S3 integration is disabled. Please use the standard upload endpoint.'' False"
    unfolding u by (simp add: multipartInitHandler_def disableMultipartUploads_def)
  show "partUrlHandler (USE_S3 e) w key uploadId partNumber =
            s3NotConfigured ''S3 integration is disabled. Please use the standard upload endpoint.'' False"
    unfolding u by (simp add: partUrlHandler_def)
  show "multipartCompleteHandler (USE_S3 e) w key uploadId parts =
            (s3NotConfigured ''S3 integration is disabled. Please use the standard upload endpoint.'' False, w)"
    unfolding u by (simp add: multipartCompleteHandler_def)
  show "directUploadConfigHandler (USE_S3 e) w fileName fileType fileSize =
            s3NotConfigured ''S3 integration is disabled. Use the standard file upload endpoint.'' True"
    unfolding u by (simp add: directUploadConfigHandler_def)
  show "directUploadCompleteHandler (USE_S3 e) w key uploadId parts =
            (s3NotConfigured ''S3 integration is disabled.'' False, w)"
    unfolding u by (simp add: directUploadCompleteHandler_def)
  show "directUploadRegisterHandler (USE_S3 e) w req =
            (s3NotConfigured ''S3 integration is disabled.'' False, w)"
    unfolding u by (simp add: directUploadRegisterHandler_def)
  show "videosS3Handler (USE_S3 e) w req =
            (s3NotConfigured ''S3 integration is disabled. Please use the standard upload endpoint.'' True, w)"
    unfolding u by (simp add: videosS3Handler_def)
  show "\<forall>r w'. postVideos (USE_S3 e) w form = (r, w') \<longrightarrow>
              s3Has w' = s3Has w \<and> finalized w' = finalized w
              \<and> (status r = 201 \<longrightarrow>
                   (\<exists>f v. formFile form = Some f \<and> videos w' = videos w @ [v]
                      \<and> filePath v = uuid w 0 @ extname (originalname f)
                      \<and> uploadDir w' (filePath v) = Some (fileBytes f)))"
    unfolding u
  proof (intro allI impI conjI)
    fix r w'
    assume a: "postVideos False w form = (r, w')"
    from postVideos_local_only [OF a] show "s3Has w' = s3Has w" and "finalized w' = finalized w"
      by simp_all
    assume b: "status r = 201"
    from postVideos_created [OF a b] show "\<exists>f v. formFile form = Some f \<and> videos w' = videos w @ [v]
                 \<and> filePath v = uuid w 0 @ extname (originalname f)
                 \<and> uploadDir w' (filePath v) = Some (fileBytes f)"
      by (auto simp: storedPath_def)
  qed
qed

theorem C4_remote_store_gate_witness:
  "\<not> USE_S3 (configuredEnv \<lparr>AWS_S3_BUCKET := None\<rparr>)
   \<and> \<not> USE_S3 (configuredEnv \<lparr>AWS_REGION := Some []\<rparr>)
   \<and> status (uploadUrlHandler (USE_S3 (configuredEnv \<lparr>AWS_S3_BUCKET := None\<rparr>)) (remoteOnly [])
               (Some ''video/mp4'') (Some ''a.mp4'')) = 400
   \<and> status (fst (postVideos (USE_S3 (configuredEnv \<lparr>AWS_S3_BUCKET := None\<rparr>)) (remoteOnly [])
                     (formOf ''a.mp4'' [7, 8, 9] ''t''))) = 201
   \<and> (\<exists>v. videos (snd (postVideos (USE_S3 (configuredEnv \<lparr>AWS_S3_BUCKET := None\<rparr>)) (remoteOnly [])
                          (formOf ''a.mp4'' [7, 8, 9] ''t''))) = [v]
        \<and> filePath v = ''id0.mp4'')
   \<and> uploadDir (snd (postVideos (USE_S3 (configuredEnv \<lparr>AWS_S3_BUCKET := None\<rparr>)) (remoteOnly [])
                        (formOf ''a.mp4'' [7, 8, 9] ''t''))) ''id0.mp4'' = Some [7, 8, 9]
   \<and> s3Has (snd (postVideos (USE_S3 (configuredEnv \<lparr>AWS_S3_BUCKET := None\<rparr>)) (remoteOnly [])
                        (formOf ''a.mp4'' [7, 8, 9] ''t''))) = s3Has (remoteOnly [])"
proof -
  let ?e = "configuredEnv \<lparr>AWS_S3_BUCKET := None\<rparr>"
  let ?F = "formOf ''a.mp4'' [7, 8, 9] ''t''"
  let ?P = "postVideos (USE_S3 ?e) (remoteOnly []) ?F"
  note c = C4_remote_store_gate [of ?e "remoteOnly []" "Some ''video/mp4''" "Some ''a.mp4''"
      None None None None None "registrationOf [] []" ?F]
  note c' = C4_remote_store_gate [of "configuredEnv \<lparr>AWS_REGION := Some []\<rparr>" "remoteOnly []"
      "Some ''video/mp4''" "Some ''a.mp4''" None None None None None "registrationOf [] []" ?F]
  have off: "\<not> USE_S3 ?e"
    using c [THEN conjunct1] by (simp add: configuredEnv_def truthy_def)
  have off': "\<not> USE_S3 (configuredEnv \<lparr>AWS_REGION := Some []\<rparr>)"
    using c' [THEN conjunct1] by (simp add: configuredEnv_def truthy_def)
  note gated = c [THEN conjunct2, THEN conjunct1, rule_format, OF off]
  have up: "status (uploadUrlHandler (USE_S3 ?e) (remoteOnly []) (Some ''video/mp4'') (Some ''a.mp4'')) = 400"
    using gated [THEN conjunct1] c [THEN conjunct2, THEN conjunct2] by simp
  have st: "status (fst ?P) = 201"
    using off fixture_post_local by simp
  have p: "?P = (fst ?P, snd ?P)" by simp
  have f: "formFile ?F = Some \<lparr>originalname = ''a.mp4'', mimetype = ''video/mp4'', fileBytes = [7, 8, 9]\<rparr>"
    by (simp add: formOf_def)
  have n1: "uuid (remoteOnly []) 0 = ''id0''" by (simp add: remoteOnly_def fixture_names)
  have v0: "videos (remoteOnly []) = []" by (simp add: remoteOnly_def)
  note last = gated [THEN conjunct2, THEN conjunct2, THEN conjunct2, THEN conjunct2, THEN conjunct2,
      THEN conjunct2, THEN conjunct2, THEN conjunct2, rule_format, OF p]
  from last st have "s3Has (snd ?P) = s3Has (remoteOnly [])"
    and "\<exists>f v. formFile ?F = Some f \<and> videos (snd ?P) = videos (remoteOnly []) @ [v]
                 \<and> filePath v = uuid (remoteOnly []) 0 @ extname (originalname f)
                 \<and> uploadDir (snd ?P) (filePath v) = Some (fileBytes f)"
    by blast+
  then have rest: "(\<exists>v. videos (snd ?P) = [v] \<and> filePath v = ''id0.mp4'')
      \<and> uploadDir (snd ?P) ''id0.mp4'' = Some [7, 8, 9]
      \<and> s3Has (snd ?P) = s3Has (remoteOnly [])"
    by (auto simp: f n1 v0 fixture_names)
  note r1 = rest [THEN conjunct1]
  note r2 = rest [THEN conjunct2, THEN conjunct1]
  note r3 = rest [THEN conjunct2, THEN conjunct2]
  show ?thesis by (intro conjI off off' up st r1 r2 r3)
qed

text \<open>
  C4 as stated fails: with credentials, region and bucket set the check returns true, the
  upload-URL endpoint answers 200 with a signed URL, and a relayed upload is also written
  to the remote store, whose key the record then carries.
\<close>

theorem C4_counterexample:
  "checkS3Configuration configuredEnv \<and> USE_S3 configuredEnv
   \<and> uploadUrlHandler (USE_S3 configuredEnv) (remoteOnly []) (Some ''video/mp4'') (Some ''a.mp4'') =
       json 200 [(''uploadUrl'', U (Signed PutObject ''uploads/id0-a.mp4'' 3600)),
                 (''key'', S ''uploads/id0-a.mp4''), (''fields'', Fields []),
                 (''maxSize'', N 524288000)]
   \<and> status (fst (postVideos (USE_S3 configuredEnv) (remoteOnly []) (formOf ''a.mp4'' [7, 8, 9] ''t'')))
       = 201
   \<and> \<not> s3Has (remoteOnly []) ''uploads/id0.mp4''
   \<and> s3Has (snd (postVideos (USE_S3 configuredEnv) (remoteOnly []) (formOf ''a.mp4'' [7, 8, 9] ''t'')))
       ''uploads/id0.mp4''"
proof -
  have u: "USE_S3 configuredEnv = True" using use_s3_configured by simp
  have c: "checkS3Configuration configuredEnv" using use_s3_configured by (simp add: USE_S3_def)
  have a: "uploadUrlHandler True (remoteOnly []) (Some ''video/mp4'') (Some ''a.mp4'') =
       json 200 [(''uploadUrl'', U (Signed PutObject ''uploads/id0-a.mp4'' 3600)),
                 (''key'', S ''uploads/id0-a.mp4''), (''fields'', Fields []),
                 (''maxSize'', N 524288000)]"
    by (simp add: uploadUrlHandler_def remoteOnly_def truthy_def generatePresignedUploadUrl_def
        normalizeS3Key_def fixture_names Let_def)
  have b: "\<not> s3Has (remoteOnly []) ''uploads/id0.mp4''" by (simp add: remoteOnly_def)
  have d: "s3Has (snd (postVideos True (remoteOnly []) (formOf ''a.mp4'' [7, 8, 9] ''t''))) ''uploads/id0.mp4''"
    by (simp add: postVideos_def formOf_def remoteOnly_def fileFilter_def effectiveFileSize_def enforceFileSizeLimit_def
      processVideoUpload_def generateThumbnail_def tryUploadToS3_def uploadFileToS3_def normalizeS3Key_def
      parseIntAuto_def parseInt_def orElse_def isDigit_def isStrWhiteSpaceChar_def digitVal_def
      json_def respond_def Let_def fixture_names getS3Url_def)
  show ?thesis unfolding u using c a b d fixture_post_status(1) by simp
qed


end
